theory Spec2Isabelle
  imports Main "HOL-Library.Word"
begin

section \<open>Errors\<close>

text \<open>
  The error values that the modelled functions return.  \<open>RequiredConfigError\<close> is
  the struct of \<^verbatim>\<open>source/oxford/provider.go\<close> (its only field is \<open>Key\<close>);
  \<open>EmptyResultError\<close> is \<^verbatim>\<open>source.EmptyResultError{word}\<close>; \<open>ErrorString\<close> is an
  error built by \<^verbatim>\<open>errors.New\<close>; \<open>OtherError\<close> stands for an error produced by a
  library (file system, JSON decoder, flag parser), with its message;
  \<open>ErrSyntax\<close> and \<open>ErrRange\<close> are the two errors of \<^verbatim>\<open>strconv\<close>;
  \<open>EscapeError\<close> is the error of \<^verbatim>\<open>url.QueryUnescape\<close>; \<open>NilDereference\<close> is the
  run-time panic of Go on reading a field through a nil pointer;
  \<open>UnmarshalTypeError\<close> is the error of \<^verbatim>\<open>encoding/json\<close> for a JSON value that
  does not fit the Go type it is decoded into.
\<close>

datatype error =
    RequiredConfigError string
  | EmptyResultError string
  | ErrorString string
  | OtherError string
  | ErrSyntax
  | ErrRange
  | EscapeError
  | NilDereference
  | UnmarshalTypeError

section \<open>Oxford provider (source/oxford/provider.go)\<close>

text \<open>The \<^verbatim>\<open>config\<close> struct of the Oxford provider.\<close>

record config =
  AppID :: string
  AppKey :: string

text \<open>
  The value built by \<^verbatim>\<open>New(http.Client{}, config.AppID, config.AppKey)\<close>.  The
  constructor lives in a file that is not part of the sources at hand; the model
  keeps the two credentials it is given (the HTTP client is the zero client).
\<close>

record oxford_source =
  srcAppID :: string
  srcAppKey :: string

definition New :: "string \<Rightarrow> string \<Rightarrow> oxford_source" where
  "New appID appKey = \<lparr>srcAppID = appID, srcAppKey = appKey\<rparr>"

text \<open>\<^verbatim>\<open>provider.Provide\<close>: the two checks in the order of the source.\<close>

definition Provide :: "config \<Rightarrow> error + oxford_source" where
  "Provide conf =
     (if AppID conf = [] then Inl (RequiredConfigError ''AppID'')
      else if AppKey conf = [] then Inl (RequiredConfigError ''AppKey'')
      else Inr (New (AppID conf) (AppKey conf)))"


section \<open>Configuration (package config)\<close>

text \<open>
  Modelled from the spec: \<^verbatim>\<open>registry.Configuration\<close> is an interface of package
  \<^verbatim>\<open>registry\<close>, which is not among the sources at hand.  The spec describes it as
  a value that knows the JSON key identifying it and the fields needed to build
  the client.  The one implementation in the sources, \<^verbatim>\<open>oxford.config\<close>, is a
  struct of string fields; a provider configuration is modelled as its JSON key
  together with its exported fields, in declaration order, each a name and a
  string value.
\<close>

record registry_Configuration =
  JSONKey :: string
  fieldVals :: "(string \<times> string) list"

text \<open>
  The \<^verbatim>\<open>Configuration\<close> struct.  \<open>IndentationSize\<close> is a Go \<^verbatim>\<open>uint\<close> (64 bits on
  the platforms considered here).  \<open>providerConfigs\<close> is a Go map from string to
  an interface value, which may be nil: an association list whose values are
  options.  A nil map and an empty map are both the empty list.
\<close>

record Configuration =
  IndentationSize :: "64 word"
  PreferredSource :: string
  providerConfigs :: "(string \<times> registry_Configuration option) list"
  configFileLocation :: string

text \<open>The zero value that \<^verbatim>\<open>var conf Configuration\<close> declares.\<close>

definition zeroConfiguration :: Configuration where
  "zeroConfiguration =
     \<lparr>IndentationSize = 0, PreferredSource = [], providerConfigs = [],
      configFileLocation = []\<rparr>"

subsection \<open>Merging\<close>

text \<open>
  \<^verbatim>\<open>mergo.Merge\<close> belongs to the third-party package \<^verbatim>\<open>github.com/imdario/mergo\<close>.
  It walks the fields of the destination struct by reflection and, for a field
  of basic kind, runs
  \<^verbatim>\<open>if dst.CanSet() && !isEmptyValue(src) && isEmptyValue(dst) { dst.Set(src) }\<close>.
  \<open>mergeField\<close> is that statement.  Reflection from another package can set
  exported fields only, so \<open>CanSet\<close> holds for \<open>IndentationSize\<close> and
  \<open>PreferredSource\<close> and fails for the private fields \<open>providerConfigs\<close> and
  \<open>configFileLocation\<close>, which the struct's own comment marks as
  "Private fields that shouldn't be externally set or output".
  Merging two structs of the same type returns no error.
\<close>

definition mergeField :: "bool \<Rightarrow> ('a \<Rightarrow> bool) \<Rightarrow> 'a \<Rightarrow> 'a \<Rightarrow> 'a" where
  "mergeField canSet isEmptyValue dst src =
     (if canSet \<and> \<not> isEmptyValue src \<and> isEmptyValue dst then src else dst)"

definition mergo_Merge :: "Configuration \<Rightarrow> Configuration \<Rightarrow> error + Configuration" where
  "mergo_Merge dst src =
     Inr \<lparr>IndentationSize =
            mergeField True (\<lambda>v. v = 0) (IndentationSize dst) (IndentationSize src),
          PreferredSource =
            mergeField True (\<lambda>v. v = []) (PreferredSource dst) (PreferredSource src),
          providerConfigs =
            mergeField False (\<lambda>v. v = []) (providerConfigs dst) (providerConfigs src),
          configFileLocation =
            mergeField False (\<lambda>v. v = []) (configFileLocation dst)
              (configFileLocation src)\<rparr>"

text \<open>
  \<^verbatim>\<open>mergeConfigurations\<close>: the loop over the sources, from left to right, with
  the early return on an error.  Like the Go function it returns both the
  accumulator and the error.
\<close>

fun mergeLoop :: "Configuration \<Rightarrow> Configuration list \<Rightarrow> Configuration \<times> error option" where
  "mergeLoop merged [] = (merged, None)"
| "mergeLoop merged (conf # confs) =
     (case mergo_Merge merged conf of
        Inl err \<Rightarrow> (merged, Some err)
      | Inr merged' \<Rightarrow> mergeLoop merged' confs)"

definition mergeConfigurations :: "Configuration list \<Rightarrow> Configuration \<times> error option" where
  "mergeConfigurations confs = mergeLoop zeroConfiguration confs"

text \<open>
  The reading of the merge that the specification gives: the first value of a
  list that is not the zero value, and the zero value when there is none.
\<close>

fun first_nonzero :: "'a \<Rightarrow> 'a list \<Rightarrow> 'a" where
  "first_nonzero z [] = z"
| "first_nonzero z (x # xs) = (if x \<noteq> z then x else first_nonzero z xs)"

subsection \<open>The environment layer\<close>

text \<open>
  \<^verbatim>\<open>os.Getenv\<close>: the environment is a partial map from names to values, and an
  unset variable reads as the empty string.
\<close>

definition Getenv :: "(string \<Rightarrow> string option) \<Rightarrow> string \<Rightarrow> string" where
  "Getenv env name = (case env name of None \<Rightarrow> [] | Some v \<Rightarrow> v)"

text \<open>
  \<^verbatim>\<open>strconv.ParseUint(s, 10, bitSize)\<close> of the Go standard library, for base 10.
  The empty string is a syntax error.  The loop reads one byte at a time: a byte
  that is not a decimal digit is a syntax error; \<open>n \<ge> cutoff\<close> means that
  \<open>n * 10\<close> overflows 64 bits; \<open>n1 < n\<close> detects the wrap-around of the
  addition, and \<open>n1 > maxVal\<close> a value too large for \<open>bitSize\<close> bits.  A
  \<open>bitSize\<close> of 0 stands for the size of \<^verbatim>\<open>uint\<close>, \<open>IntSize\<close>.
\<close>

definition IntSize :: nat where
  "IntSize = 64"

definition isDigit :: "char \<Rightarrow> bool" where
  "isDigit c = (48 \<le> (of_char c :: nat) \<and> (of_char c :: nat) \<le> 57)"

definition digitVal :: "char \<Rightarrow> nat" where
  "digitVal c = (of_char c :: nat) - 48"

definition cutoff :: nat where
  "cutoff = (2 ^ 64 - 1) div 10 + 1"

fun parseUintLoop :: "nat \<Rightarrow> nat \<Rightarrow> string \<Rightarrow> error + nat" where
  "parseUintLoop maxVal n [] = Inr n"
| "parseUintLoop maxVal n (c # cs) =
     (if \<not> isDigit c then Inl ErrSyntax
      else if n \<ge> cutoff then Inl ErrRange
      else let n' = n * 10;
               n1 = (n' + digitVal c) mod 2 ^ 64
           in if n1 < n' \<or> n1 > maxVal then Inl ErrRange
              else parseUintLoop maxVal n1 cs)"

definition ParseUint :: "string \<Rightarrow> nat \<Rightarrow> error + nat" where
  "ParseUint s bitSize =
     (if s = [] then Inl ErrSyntax
      else let bits = (if bitSize = 0 then IntSize else bitSize)
           in parseUintLoop (2 ^ bits - 1) 0 s)"

text \<open>\<^verbatim>\<open>initializeEnvironmentConfig\<close>.\<close>

definition initializeEnvironmentConfig :: "(string \<Rightarrow> string option) \<Rightarrow> Configuration" where
  "initializeEnvironmentConfig env =
     (let conf = zeroConfiguration;
          conf = (case ParseUint (Getenv env ''DEFINE_APP_INDENT_SIZE'') 0 of
                    Inr val \<Rightarrow> conf\<lparr>IndentationSize := of_nat val\<rparr>
                  | Inl err \<Rightarrow> conf)
      in conf\<lparr>PreferredSource := Getenv env ''DEFINE_APP_PREFERRED_SOURCE''\<rparr>)"

text \<open>
  The decimal value of a string of digits, the reference for what
  \<open>ParseUint\<close> computes.
\<close>

definition decimal :: "string \<Rightarrow> nat" where
  "decimal s = foldl (\<lambda>a c. a * 10 + digitVal c) 0 s"


section \<open>Result model (package source)\<close>

text \<open>
  Modelled from the spec: the types of package \<^verbatim>\<open>source\<close> are not among the
  sources at hand; \<^verbatim>\<open>glosbe.go\<close> shows the field names \<open>DefinitionVals\<close>,
  \<open>SenseVals\<close>, \<open>SynonymVals\<close>, \<open>Head\<close>, \<open>Lang\<close> and \<open>EntryVals\<close>.  The spec gives
  the rest: a sense is an ordered sequence of definitions, of examples, of
  synonyms and of antonyms; a dictionary-style entry carries a pronunciation
  text, an audio URL and an ordered sequence of senses; a thesaurus-style entry
  carries synonym and antonym word lists; a result has a head word, a language
  tag and an ordered sequence of entries.
\<close>

record SenseValue =
  DefinitionVals :: "string list"
  ExampleVals :: "string list"
  SenseSynonymVals :: "string list"
  SenseAntonymVals :: "string list"

record DictionaryEntryValue =
  PronunciationVal :: string
  AudioURLVal :: string
  SenseVals :: "SenseValue list"

record ThesaurusEntryValue =
  SynonymVals :: "string list"
  AntonymVals :: "string list"

text \<open>
  \<^verbatim>\<open>glosbeEntry\<close> of \<^verbatim>\<open>glosbe.go\<close> embeds both entry values.  An element of
  \<open>EntryVals\<close> (an \<^verbatim>\<open>interface{}\<close> in Go) is one of the entry kinds.
\<close>

record glosbeEntry =
  DictionaryEntry :: DictionaryEntryValue
  ThesaurusEntry :: ThesaurusEntryValue

datatype entry =
    DictionaryEntryOf DictionaryEntryValue
  | ThesaurusEntryOf ThesaurusEntryValue
  | GlosbeEntryOf glosbeEntry

record ResultValue =
  Head :: string
  Lang :: string
  EntryVals :: "entry list"

text \<open>The zero values of the three structs, as Go's composite literals give them.\<close>

definition zeroSenseValue :: SenseValue where
  "zeroSenseValue =
     \<lparr>DefinitionVals = [], ExampleVals = [], SenseSynonymVals = [], SenseAntonymVals = []\<rparr>"

definition zeroDictionaryEntryValue :: DictionaryEntryValue where
  "zeroDictionaryEntryValue = \<lparr>PronunciationVal = [], AudioURLVal = [], SenseVals = []\<rparr>"

definition zeroThesaurusEntryValue :: ThesaurusEntryValue where
  "zeroThesaurusEntryValue = \<lparr>SynonymVals = [], AntonymVals = []\<rparr>"

subsection \<open>Validation\<close>

text \<open>
  Modelled from the spec: \<^verbatim>\<open>source.ValidateResult\<close> and
  \<^verbatim>\<open>source.ValidateAndReturnResult\<close> are not among the sources at hand.  By the
  spec, validation fails with \<open>EmptyResultError {word}\<close> when the result has no
  entries, or when every entry is content-free (no definitions, no synonyms, no
  pronunciation, depending on the entry kind), where an entry has content when
  it carries at least one non-empty field.  The function receives the result
  alone (\<^verbatim>\<open>source.ValidateResult(result)\<close> in \<^verbatim>\<open>define.go\<close>), so the word of the
  error is the head word of the result.
\<close>

definition allBlank :: "string list \<Rightarrow> bool" where
  "allBlank xs = list_all (\<lambda>x. x = []) xs"

definition senseContentFree :: "SenseValue \<Rightarrow> bool" where
  "senseContentFree s =
     (allBlank (DefinitionVals s) \<and> allBlank (ExampleVals s) \<and>
      allBlank (SenseSynonymVals s) \<and> allBlank (SenseAntonymVals s))"

definition dictionaryContentFree :: "DictionaryEntryValue \<Rightarrow> bool" where
  "dictionaryContentFree d =
     (PronunciationVal d = [] \<and> AudioURLVal d = [] \<and>
      list_all senseContentFree (SenseVals d))"

definition thesaurusContentFree :: "ThesaurusEntryValue \<Rightarrow> bool" where
  "thesaurusContentFree t = (allBlank (SynonymVals t) \<and> allBlank (AntonymVals t))"

fun entryContentFree :: "entry \<Rightarrow> bool" where
  "entryContentFree (DictionaryEntryOf d) = dictionaryContentFree d"
| "entryContentFree (ThesaurusEntryOf t) = thesaurusContentFree t"
| "entryContentFree (GlosbeEntryOf g) =
     (dictionaryContentFree (DictionaryEntry g) \<and> thesaurusContentFree (ThesaurusEntry g))"

definition ValidateResult :: "ResultValue \<Rightarrow> error option" where
  "ValidateResult result =
     (if length (EntryVals result) < 1 \<or> list_all entryContentFree (EntryVals result)
      then Some (EmptyResultError (Head result))
      else None)"

definition ValidateAndReturnResult :: "error + ResultValue \<Rightarrow> error + ResultValue" where
  "ValidateAndReturnResult r =
     (case r of
        Inl err \<Rightarrow> Inl err
      | Inr result \<Rightarrow>
          (case ValidateResult result of Some err \<Rightarrow> Inl err | None \<Rightarrow> Inr result))"

section \<open>Glosbe client (source/glosbe/glosbe.go)\<close>

subsection \<open>The API result and its conversion\<close>

text \<open>
  \<^verbatim>\<open>apiResult\<close>.  The two anonymous structs with the fields \<open>Language\<close> and
  \<open>Text\<close> are the record \<open>langText\<close>.  \<open>TUC\<close> and \<open>Meanings\<close> are slices of
  pointers and \<open>Phrase\<close> of an item is a pointer, all of which the JSON decoder
  leaves nil for a JSON \<^verbatim>\<open>null\<close>: they are options.  The \<open>Phrase\<close> field of an item
  is named \<open>ItemPhrase\<close> here, to keep it apart from the \<open>Phrase\<close> of the result.
\<close>

record langText =
  Language :: string
  Text :: string

record tucItem =
  Meanings :: "langText option list"
  ItemPhrase :: "langText option"
  Authors :: "int list"

record apiResult =
  Result :: string
  TUC :: "tucItem option list"
  Phrase :: string
  Dest :: string

text \<open>
  \<^verbatim>\<open>strings.EqualFold\<close>, on ASCII: the letters A-Z and a-z are equal up to case,
  every other byte is equal to itself only.  (Go folds the other Unicode letters
  too; the properties below use \<open>EqualFold\<close> as a relation and do not depend on
  its extent.)
\<close>

definition toLowerASCII :: "char \<Rightarrow> char" where
  "toLowerASCII c =
     (if 65 \<le> (of_char c :: nat) \<and> (of_char c :: nat) \<le> 90
      then char_of ((of_char c :: nat) + 32) else c)"

definition EqualFold :: "string \<Rightarrow> string \<Rightarrow> bool" where
  "EqualFold s t = (map toLowerASCII s = map toLowerASCII t)"

text \<open>
  The inner loop of \<^verbatim>\<open>toResult\<close> over the meanings of an item: each meaning
  appends a sense whose only definition is the text of the meaning.  Reading
  \<^verbatim>\<open>meaning.Text\<close> through a nil pointer panics.
\<close>

fun meaningsLoop :: "SenseValue list \<Rightarrow> langText option list \<Rightarrow> error + SenseValue list" where
  "meaningsLoop senses [] = Inr senses"
| "meaningsLoop senses (None # meanings) = Inl NilDereference"
| "meaningsLoop senses (Some meaning # meanings) =
     meaningsLoop (senses @ [zeroSenseValue\<lparr>DefinitionVals := [Text meaning]\<rparr>]) meanings"

text \<open>
  The outer loop over \<^verbatim>\<open>r.TUC\<close>, with the entry and the senses built so far.
  Reading \<^verbatim>\<open>item.Phrase\<close> through a nil item panics.
\<close>

fun tucLoop ::
  "string \<Rightarrow> glosbeEntry \<Rightarrow> SenseValue list \<Rightarrow> tucItem option list \<Rightarrow>
   error + glosbeEntry \<times> SenseValue list" where
  "tucLoop phrase entry senses [] = Inr (entry, senses)"
| "tucLoop phrase entry senses (None # items) = Inl NilDereference"
| "tucLoop phrase entry senses (Some item # items) =
     (if ItemPhrase item = None \<or>
         (case ItemPhrase item of Some p \<Rightarrow> EqualFold (Text p) phrase | None \<Rightarrow> False)
      then
        (case meaningsLoop senses (Meanings item) of
           Inl err \<Rightarrow> Inl err
         | Inr senses' \<Rightarrow> tucLoop phrase entry senses' items)
      else if ItemPhrase item \<noteq> None \<and>
         (case ItemPhrase item of Some p \<Rightarrow> Text p \<noteq> [] | None \<Rightarrow> False)
      then
        (case ItemPhrase item of
           Some p \<Rightarrow>
             tucLoop phrase
               (entry\<lparr>ThesaurusEntry :=
                  (ThesaurusEntry entry)
                    \<lparr>SynonymVals := SynonymVals (ThesaurusEntry entry) @ [Text p]\<rparr>\<rparr>)
               senses items
         | None \<Rightarrow> Inl NilDereference)
      else tucLoop phrase entry senses items)"

definition toResult :: "apiResult \<Rightarrow> error + ResultValue" where
  "toResult r =
     (let entry = \<lparr>DictionaryEntry = zeroDictionaryEntryValue,
                   ThesaurusEntry = zeroThesaurusEntryValue\<rparr>;
          senses = []
      in case tucLoop (Phrase r) entry senses (TUC r) of
           Inl err \<Rightarrow> Inl err
         | Inr (entry, senses) \<Rightarrow>
             Inr \<lparr>Head = Phrase r, Lang = Dest r,
                  EntryVals =
                    [GlosbeEntryOf
                       (entry\<lparr>DictionaryEntry :=
                          (DictionaryEntry entry)\<lparr>SenseVals := senses\<rparr>\<rparr>)]\<rparr>)"







subsection \<open>URLs and query values (package net/url)\<close>

text \<open>
  The fields of \<^verbatim>\<open>url.URL\<close> that a parsed \<^verbatim>\<open>https\<close> URL fills.
\<close>

record URL =
  Scheme :: string
  Host :: string
  Path :: string
  RawQuery :: string
  Fragment :: string

text \<open>
  \<^verbatim>\<open>url.Values\<close> is a Go map from a key to the list of its values: an association
  list with one pair for each key.  \<open>valuesGet\<close> reads a key, \<open>valuesPut\<close>
  assigns to a key.
\<close>

type_synonym Values = "(string \<times> string list) list"

fun valuesGet :: "Values \<Rightarrow> string \<Rightarrow> string list" where
  "valuesGet [] key = []"
| "valuesGet ((k, vs) # m) key = (if k = key then vs else valuesGet m key)"

fun valuesPut :: "Values \<Rightarrow> string \<Rightarrow> string list \<Rightarrow> Values" where
  "valuesPut [] key vs = [(key, vs)]"
| "valuesPut ((k, ws) # m) key vs =
     (if k = key then (k, vs) # m else (k, ws) # valuesPut m key vs)"

text \<open>\<^verbatim>\<open>Values.Set\<close>: the key gets the single value, replacing what it had.\<close>

definition Set :: "Values \<Rightarrow> string \<Rightarrow> string \<Rightarrow> Values" where
  "Set v key val = valuesPut v key [val]"

text \<open>
  \<^verbatim>\<open>url.QueryEscape\<close>: letters, digits and the four marks \<^verbatim>\<open>- _ . ~\<close> stay, a
  space becomes \<^verbatim>\<open>+\<close>, every other byte becomes \<^verbatim>\<open>%\<close> and two upper-case
  hexadecimal digits.
\<close>

definition isAlnum :: "char \<Rightarrow> bool" where
  "isAlnum c =
     (let n = (of_char c :: nat)
      in (97 \<le> n \<and> n \<le> 122) \<or> (65 \<le> n \<and> n \<le> 90) \<or> (48 \<le> n \<and> n \<le> 57))"

definition shouldEscape :: "char \<Rightarrow> bool" where
  "shouldEscape c =
     (\<not> (isAlnum c \<or> c = CHR ''-'' \<or> c = CHR ''_'' \<or> c = CHR ''.'' \<or> c = CHR ''~''))"

definition upperhex :: "nat \<Rightarrow> char" where
  "upperhex n = ''0123456789ABCDEF'' ! n"

definition escapeByte :: "char \<Rightarrow> string" where
  "escapeByte c =
     (if shouldEscape c then
        (if c = CHR '' '' then ''+''
         else [CHR ''%'', upperhex ((of_char c :: nat) div 16),
               upperhex ((of_char c :: nat) mod 16)])
      else [c])"

definition QueryEscape :: "string \<Rightarrow> string" where
  "QueryEscape s = concat (map escapeByte s)"

text \<open>
  \<^verbatim>\<open>url.QueryUnescape\<close>: \<^verbatim>\<open>%\<close> must be followed by two hexadecimal digits, which
  give one byte; \<^verbatim>\<open>+\<close> is a space.
\<close>

definition ishex :: "char \<Rightarrow> bool" where
  "ishex c =
     (let n = (of_char c :: nat)
      in (48 \<le> n \<and> n \<le> 57) \<or> (97 \<le> n \<and> n \<le> 102) \<or> (65 \<le> n \<and> n \<le> 70))"

definition unhex :: "char \<Rightarrow> nat" where
  "unhex c =
     (let n = (of_char c :: nat)
      in if 48 \<le> n \<and> n \<le> 57 then n - 48
         else if 97 \<le> n \<and> n \<le> 102 then n - 97 + 10
         else if 65 \<le> n \<and> n \<le> 70 then n - 65 + 10
         else 0)"

fun QueryUnescape :: "string \<Rightarrow> error + string" where
  "QueryUnescape [] = Inr []"
| "QueryUnescape (c # cs) =
     (if c = CHR ''%'' then
        (case cs of
           h1 # h2 # rest \<Rightarrow>
             (if ishex h1 \<and> ishex h2 then
                (case QueryUnescape rest of
                   Inl err \<Rightarrow> Inl err
                 | Inr t \<Rightarrow> Inr (char_of (unhex h1 * 16 + unhex h2) # t))
              else Inl EscapeError)
         | _ \<Rightarrow> Inl EscapeError)
      else
        (case QueryUnescape cs of
           Inl err \<Rightarrow> Inl err
         | Inr t \<Rightarrow> Inr ((if c = CHR ''+'' then CHR '' '' else c) # t)))"

text \<open>
  \<^verbatim>\<open>strings.Cut\<close> on a one-byte separator (the text before the first separator
  and the text after it), and the split of a string at every separator.
\<close>

definition cut :: "char \<Rightarrow> string \<Rightarrow> string \<times> string" where
  "cut sep s = (takeWhile (\<lambda>c. c \<noteq> sep) s, drop 1 (dropWhile (\<lambda>c. c \<noteq> sep) s))"

fun splitOn :: "char \<Rightarrow> string \<Rightarrow> string \<Rightarrow> string list" where
  "splitOn sep cur [] = [cur]"
| "splitOn sep cur (c # cs) =
     (if c = sep then cur # splitOn sep [] cs else splitOn sep (cur @ [c]) cs)"

text \<open>
  \<^verbatim>\<open>url.ParseQuery\<close>, whose error \<^verbatim>\<open>URL.Query\<close> drops: the query is cut at
  every \<^verbatim>\<open>&\<close>; a piece that holds a semicolon, is empty, or does not unescape is
  skipped; any other piece is cut at its first \<^verbatim>\<open>=\<close> into a key and a value,
  and the value is appended to the values of the key.
\<close>

fun parseQuery :: "Values \<Rightarrow> string list \<Rightarrow> Values" where
  "parseQuery m [] = m"
| "parseQuery m (piece # pieces) =
     (if CHR '';'' \<in> set piece then parseQuery m pieces
      else if piece = [] then parseQuery m pieces
      else
        (case QueryUnescape (fst (cut CHR ''='' piece)) of
           Inl err \<Rightarrow> parseQuery m pieces
         | Inr key \<Rightarrow>
             (case QueryUnescape (snd (cut CHR ''='' piece)) of
                Inl err \<Rightarrow> parseQuery m pieces
              | Inr val \<Rightarrow> parseQuery (valuesPut m key (valuesGet m key @ [val])) pieces)))"

definition Query :: "URL \<Rightarrow> Values" where
  "Query u = parseQuery [] (splitOn CHR ''&'' [] (RawQuery u))"

text \<open>
  \<^verbatim>\<open>Values.Encode\<close>: the keys in sorted order (bytewise, as \<^verbatim>\<open>sort.Strings\<close>
  compares), each value of a key as \<^verbatim>\<open>key=value\<close>, both escaped, joined by
  \<^verbatim>\<open>&\<close>.
\<close>

fun stringLess :: "string \<Rightarrow> string \<Rightarrow> bool" where
  "stringLess [] [] = False"
| "stringLess [] (d # t) = True"
| "stringLess (c # s) [] = False"
| "stringLess (c # s) (d # t) =
     ((of_char c :: nat) < of_char d \<or> (c = d \<and> stringLess s t))"

fun insertKey :: "string \<Rightarrow> string list \<Rightarrow> string list" where
  "insertKey k [] = [k]"
| "insertKey k (x # xs) = (if stringLess x k then x # insertKey k xs else k # x # xs)"

definition sortStrings :: "string list \<Rightarrow> string list" where
  "sortStrings ks = foldr insertKey ks []"

fun joinAmp :: "string list \<Rightarrow> string" where
  "joinAmp [] = []"
| "joinAmp [x] = x"
| "joinAmp (x # y # zs) = x @ ''&'' @ joinAmp (y # zs)"

definition Encode :: "Values \<Rightarrow> string" where
  "Encode v =
     joinAmp (concat (map (\<lambda>k. map (\<lambda>val. QueryEscape k @ ''='' @ QueryEscape val)
                                   (valuesGet v k))
                          (sortStrings (map fst v))))"

text \<open>\<^verbatim>\<open>URL.String\<close>, for a URL with a scheme, a host and a path.\<close>

definition URL_String :: "URL \<Rightarrow> string" where
  "URL_String u =
     Scheme u @ ''://'' @ Host u @ Path u @
     (if RawQuery u = [] then [] else ''?'' @ RawQuery u) @
     (if Fragment u = [] then [] else ''#'' @ Fragment u)"

subsection \<open>Package state and \<open>Define\<close>\<close>

text \<open>
  The package-level variables of \<^verbatim>\<open>glosbe.go\<close>: \<^verbatim>\<open>apiURL\<close> and
  \<^verbatim>\<open>validMIMETypes\<close>.  \<open>initialState\<close> is the state that \<^verbatim>\<open>init\<close> leaves:
  \<^verbatim>\<open>apiURL\<close> is \<^verbatim>\<open>baseURLString\<close> parsed.
\<close>

record packageState =
  apiURL :: URL
  validMIMETypes :: "string list"

definition wordParameter :: string where
  "wordParameter = ''phrase''"

definition jsonMIMEType :: string where
  "jsonMIMEType = ''application/json''"

definition initialState :: packageState where
  "initialState =
     \<lparr>apiURL = \<lparr>Scheme = ''https'', Host = ''glosbe.com'', Path = ''/gapi/translate'',
                RawQuery = ''format=json&from=en&dest=en'', Fragment = []\<rparr>,
      validMIMETypes = [jsonMIMEType]\<rparr>"

text \<open>
  \<^verbatim>\<open>api.Define\<close>, passing the package state.  The first three statements write
  the new query into \<^verbatim>\<open>apiURL.RawQuery\<close>.  The steps from \<^verbatim>\<open>http.NewRequest\<close> to
  \<^verbatim>\<open>json.Unmarshal\<close> talk to the network: \<open>fetch\<close> stands for them, and gives
  for the request URL either their first error or the decoded \<^verbatim>\<open>apiResult\<close>.
  A panic in \<open>toResult\<close> ends the call.
\<close>

definition Define ::
  "(string \<Rightarrow> error + apiResult) \<Rightarrow> packageState \<Rightarrow> string \<Rightarrow>
   (error + ResultValue) \<times> packageState" where
  "Define fetch st word =
     (let queryParams = Query (apiURL st);
          queryParams = Set queryParams wordParameter word;
          st = st\<lparr>apiURL := (apiURL st)\<lparr>RawQuery := Encode queryParams\<rparr>\<rparr>
      in (case fetch (URL_String (apiURL st)) of
            Inl err \<Rightarrow> Inl err
          | Inr result \<Rightarrow>
              if length (TUC result) < 1 then Inl (EmptyResultError word)
              else ValidateAndReturnResult (toResult result),
          st))"

section \<open>Configuration files (package config)\<close>

subsection \<open>JSON values\<close>

text \<open>
  The values that \<^verbatim>\<open>encoding/json\<close> reads and writes.  \<open>JNumber\<close> is an integer
  literal, \<open>JFloat\<close> a number literal with a fraction or an exponent (kept as
  its text).  An object is the list of its members in the order of the text.
  The text form itself (quoting, escapes, white space) is left to the parser
  and the printer of the library; strings are taken to be valid UTF-8, which
  the printer keeps as they are.
\<close>

datatype json =
    JNull
  | JBool bool
  | JNumber int
  | JFloat string
  | JString string
  | JArray "json list"
  | JObject "(string \<times> json) list"

text \<open>Assignment to a key of a Go map, on association lists.\<close>

fun mapAssign :: "('k \<times> 'v) list \<Rightarrow> 'k \<Rightarrow> 'v \<Rightarrow> ('k \<times> 'v) list" where
  "mapAssign [] key v = [(key, v)]"
| "mapAssign ((k, w) # m) key v =
     (if k = key then (k, v) # m else (k, w) # mapAssign m key v)"

text \<open>
  The decoder of \<^verbatim>\<open>encoding/json\<close> finds the struct field for an object key by
  its exact name and, failing that, by a case-insensitive match, the first
  field in declaration order winning.
\<close>

definition fieldFor :: "string list \<Rightarrow> string \<Rightarrow> string option" where
  "fieldFor names key =
     (if key \<in> set names then Some key else find (\<lambda>n. EqualFold n key) names)"

subsection \<open>Serialization\<close>

text \<open>
  A provider configuration is written as the object of its exported fields, in
  declaration order.
\<close>

definition encodeProvider :: "registry_Configuration \<Rightarrow> json" where
  "encodeProvider p = JObject (map (\<lambda>(name, v). (name, JString v)) (fieldVals p))"

text \<open>
  The loop of \<^verbatim>\<open>MarshalJSON\<close> over \<^verbatim>\<open>c.providerConfigs\<close>: a nil configuration and
  one without fields are skipped, any other is stored under its own JSON key.
  Go ranges over a map in no fixed order; the order of the list stands for the
  order of one run, and matters only when two configurations report the same
  JSON key.
\<close>

fun marshalLoop ::
  "(string \<times> json) list \<Rightarrow> (string \<times> registry_Configuration option) list \<Rightarrow>
   (string \<times> json) list" where
  "marshalLoop configMap [] = configMap"
| "marshalLoop configMap ((k, None) # pcs) = marshalLoop configMap pcs"
| "marshalLoop configMap ((k, Some providerConf) # pcs) =
     (if length (fieldVals providerConf) < 1 then marshalLoop configMap pcs
      else marshalLoop
             (mapAssign configMap (JSONKey providerConf) (encodeProvider providerConf)) pcs)"

text \<open>
  \<^verbatim>\<open>json.Marshal\<close> writes the members of a map in the sorted order of the keys.
\<close>

fun insertMember :: "string \<times> json \<Rightarrow> (string \<times> json) list \<Rightarrow> (string \<times> json) list" where
  "insertMember kv [] = [kv]"
| "insertMember kv (x # xs) =
     (if stringLess (fst x) (fst kv) then x # insertMember kv xs else kv # x # xs)"

definition sortMembers :: "(string \<times> json) list \<Rightarrow> (string \<times> json) list" where
  "sortMembers kvs = foldr insertMember kvs []"

text \<open>
  \<^verbatim>\<open>Configuration.MarshalJSON\<close>.  \<^verbatim>\<open>structs.Map(c)\<close> is the map of the exported
  fields of \<open>c\<close> by name.
\<close>

definition MarshalJSON :: "Configuration \<Rightarrow> json" where
  "MarshalJSON c =
     (let configMap = [(''IndentationSize'', JNumber (uint (IndentationSize c))),
                       (''PreferredSource'', JString (PreferredSource c))]
      in JObject (sortMembers (marshalLoop configMap (providerConfigs c))))"

subsection \<open>Deserialization\<close>

text \<open>
  \<^verbatim>\<open>json.Unmarshal(data, (*conf)(c))\<close>: the decoding of a JSON value into the
  exported fields of the struct.  The members of an object are taken in order;
  a member whose key matches no field is ignored; \<^verbatim>\<open>null\<close> leaves a field as
  it is; a value of the wrong type (or a number out of the range of \<^verbatim>\<open>uint\<close>)
  gives an error, which is kept while the decoding goes on, and the first such
  error is returned at the end.
\<close>

definition saveError :: "error option \<Rightarrow> error \<Rightarrow> error option" where
  "saveError saved err = (case saved of None \<Rightarrow> Some err | Some e \<Rightarrow> Some e)"

fun decodeBaseLoop ::
  "Configuration \<Rightarrow> error option \<Rightarrow> (string \<times> json) list \<Rightarrow> Configuration \<times> error option" where
  "decodeBaseLoop c saved [] = (c, saved)"
| "decodeBaseLoop c saved ((key, v) # members) =
     (case fieldFor [''IndentationSize'', ''PreferredSource''] key of
        None \<Rightarrow> decodeBaseLoop c saved members
      | Some f \<Rightarrow>
          if f = ''IndentationSize'' then
            (case v of
               JNull \<Rightarrow> decodeBaseLoop c saved members
             | JNumber n \<Rightarrow>
                 if 0 \<le> n \<and> n < 2 ^ 64
                 then decodeBaseLoop (c\<lparr>IndentationSize := word_of_int n\<rparr>) saved members
                 else decodeBaseLoop c (saveError saved UnmarshalTypeError) members
             | _ \<Rightarrow> decodeBaseLoop c (saveError saved UnmarshalTypeError) members)
          else
            (case v of
               JNull \<Rightarrow> decodeBaseLoop c saved members
             | JString str \<Rightarrow> decodeBaseLoop (c\<lparr>PreferredSource := str\<rparr>) saved members
             | _ \<Rightarrow> decodeBaseLoop c (saveError saved UnmarshalTypeError) members))"

definition decodeBase :: "Configuration \<Rightarrow> json \<Rightarrow> Configuration \<times> error option" where
  "decodeBase c data =
     (case data of
        JNull \<Rightarrow> (c, None)
      | JObject members \<Rightarrow> decodeBaseLoop c None members
      | _ \<Rightarrow> (c, Some UnmarshalTypeError))"

text \<open>
  \<^verbatim>\<open>json.Unmarshal(data, &configMap)\<close> for a map to \<^verbatim>\<open>*json.RawMessage\<close>: of two
  members with the same key the later one stays; a member that is \<^verbatim>\<open>null\<close>
  gives a nil pointer.  \<open>rawLookup\<close> is the lookup \<^verbatim>\<open>configMap[key]\<close> in that
  map.
\<close>

definition rawLookup :: "(string \<times> json) list \<Rightarrow> string \<Rightarrow> json option" where
  "rawLookup members key = map_of (rev members) key"

text \<open>
  \<^verbatim>\<open>json.Unmarshal([]byte(*rawConf), conf)\<close>, whose error the caller drops: the
  decoding of a raw value into the fields of a provider configuration.  A
  member that is a string is stored in the field that its key matches; any
  other member leaves the fields as they are.
\<close>

fun setField :: "(string \<times> string) list \<Rightarrow> string \<Rightarrow> string \<Rightarrow> (string \<times> string) list" where
  "setField [] name v = []"
| "setField ((n, w) # fs) name v =
     (if n = name then (n, v) # fs else (n, w) # setField fs name v)"

fun decodeProviderLoop ::
  "registry_Configuration \<Rightarrow> (string \<times> json) list \<Rightarrow> registry_Configuration" where
  "decodeProviderLoop conf [] = conf"
| "decodeProviderLoop conf ((key, v) # members) =
     (case fieldFor (map fst (fieldVals conf)) key of
        None \<Rightarrow> decodeProviderLoop conf members
      | Some f \<Rightarrow>
          (case v of
             JString str \<Rightarrow>
               decodeProviderLoop (conf\<lparr>fieldVals := setField (fieldVals conf) f str\<rparr>) members
           | _ \<Rightarrow> decodeProviderLoop conf members))"

definition decodeProvider :: "registry_Configuration \<Rightarrow> json \<Rightarrow> registry_Configuration" where
  "decodeProvider conf raw =
     (case raw of JObject members \<Rightarrow> decodeProviderLoop conf members | _ \<Rightarrow> conf)"

text \<open>
  Modelled from the spec: \<^verbatim>\<open>registry.Providers()\<close> is in package \<^verbatim>\<open>registry\<close>,
  which is not among the sources at hand; by the spec the raw JSON is re-scanned
  per currently-registered provider identifier.  It is the list of the
  configurations of the registered providers.

  The loop of \<^verbatim>\<open>UnmarshalJSON\<close> over the registered providers: a provider whose
  JSON key is a member of the data is decoded from that member and attached
  under its key.  Reading \<^verbatim>\<open>*rawConf\<close> panics when the member is \<^verbatim>\<open>null\<close>.
\<close>

fun attachLoop ::
  "(string \<times> json) list \<Rightarrow> (string \<times> registry_Configuration option) list \<Rightarrow>
   registry_Configuration list \<Rightarrow>
   error + (string \<times> registry_Configuration option) list" where
  "attachLoop members pcs [] = Inr pcs"
| "attachLoop members pcs (conf # confs) =
     (case rawLookup members (JSONKey conf) of
        None \<Rightarrow> attachLoop members pcs confs
      | Some JNull \<Rightarrow> Inl NilDereference
      | Some rawConf \<Rightarrow>
          attachLoop members
            (mapAssign pcs (JSONKey conf) (Some (decodeProvider conf rawConf))) confs)"

text \<open>
  \<^verbatim>\<open>Configuration.UnmarshalJSON\<close>, for the registered providers \<open>providers\<close>.
  The result is \<open>Inl\<close> for a panic, and otherwise the configuration as the
  call leaves it, with the error returned.  The second \<^verbatim>\<open>json.Unmarshal\<close>, into
  the map, fails on the values on which the first one fails for their kind.
\<close>

definition UnmarshalJSON ::
  "registry_Configuration list \<Rightarrow> Configuration \<Rightarrow> json \<Rightarrow>
   error + Configuration \<times> error option" where
  "UnmarshalJSON providers c data =
     (case decodeBase c data of
        (c, Some err) \<Rightarrow> Inr (c, Some err)
      | (c, None) \<Rightarrow>
          (case data of
             JObject members \<Rightarrow>
               (case attachLoop members (providerConfigs c) providers of
                  Inl panic \<Rightarrow> Inl panic
                | Inr pcs \<Rightarrow> Inr (c\<lparr>providerConfigs := pcs\<rparr>, None))
           | JNull \<Rightarrow> Inr (c, None)
           | _ \<Rightarrow> Inr (c, Some UnmarshalTypeError)))"

subsection \<open>What a round trip keeps\<close>

text \<open>
  The provider configurations of a map that \<^verbatim>\<open>MarshalJSON\<close> writes: those
  that are not nil and have at least one field, in the order of the map.
\<close>

fun serializedProviders ::
  "(string \<times> registry_Configuration option) list \<Rightarrow> registry_Configuration list" where
  "serializedProviders [] = []"
| "serializedProviders ((k, None) # pcs) = serializedProviders pcs"
| "serializedProviders ((k, Some p) # pcs) =
     (if fieldVals p = [] then serializedProviders pcs else p # serializedProviders pcs)"

text \<open>
  A map of provider configurations as \<^verbatim>\<open>registry.ConfigureProviders\<close> builds it
  (by the spec, each configuration is keyed by its own reported JSON key): the
  keys are those of a Go map, so no key occurs twice, and every configuration
  that is not nil is stored under its own JSON key.
\<close>

definition underOwnKeys :: "(string \<times> registry_Configuration option) list \<Rightarrow> bool" where
  "underOwnKeys pcs =
     (distinct (map fst pcs) \<and>
      list_all (\<lambda>(k, v). case v of None \<Rightarrow> True | Some p \<Rightarrow> k = JSONKey p) pcs)"

text \<open>
  The member that a provider configuration contributes to the serialized object,
  and the effect of storing a list of field values one after the other.
\<close>

definition providerMember :: "registry_Configuration \<Rightarrow> string \<times> json" where
  "providerMember p = (JSONKey p, encodeProvider p)"

definition storeAll ::
  "(string \<times> string) list \<Rightarrow> (string \<times> string) list \<Rightarrow> (string \<times> string) list" where
  "storeAll fs kvs = foldl (\<lambda>fs (n, v). setField fs n v) fs kvs"

text \<open>
  Examples: the configuration of the Oxford provider with its two credentials,
  the same provider as it is registered before any value is known, and a
  provider whose configuration has no fields.
\<close>

definition exampleOxford :: registry_Configuration where
  "exampleOxford =
     \<lparr>JSONKey = ''OxfordDictionary'',
      fieldVals = [(''AppID'', ''id-1''), (''AppKey'', ''key-1'')]\<rparr>"

definition registeredOxford :: registry_Configuration where
  "registeredOxford =
     \<lparr>JSONKey = ''OxfordDictionary'', fieldVals = [(''AppID'', []), (''AppKey'', [])]\<rparr>"

definition exampleFieldless :: registry_Configuration where
  "exampleFieldless = \<lparr>JSONKey = ''Glosbe'', fieldVals = []\<rparr>"

subsection \<open>The run-time surroundings of \<open>NewFromRuntime\<close>\<close>

text \<open>
  What \<^verbatim>\<open>NewFromRuntime\<close> reads from outside the program, as one record:
  \<^item> the command line: the values that \<^verbatim>\<open>flags.Parse(os.Args[1:])\<close> stores in the
    three variables that \<^verbatim>\<open>initializeCommandLineConfig\<close> binds to the flags
    \<^verbatim>\<open>--config-file\<close>, \<^verbatim>\<open>--indent-size\<close> and \<^verbatim>\<open>--preferred-source\<close> (the defaults
    \<^verbatim>\<open>""\<close>, \<^verbatim>\<open>0\<close>, \<^verbatim>\<open>""\<close> when a flag is not given), and the error that the
    parse returns;
  \<^item> the file system: \<^verbatim>\<open>homedir.Expand\<close>, whether \<^verbatim>\<open>os.Stat\<close> reports that a path
    does not exist, and \<^verbatim>\<open>ioutil.ReadFile\<close>;
  \<^item> the parser of JSON text that \<^verbatim>\<open>json.Unmarshal\<close> runs before it calls
    \<^verbatim>\<open>UnmarshalJSON\<close>;
  \<^item> the environment variables;
  \<^item> the configurations of the registered providers.
\<close>

record runtime =
  flagConfigFile :: string
  flagIndentSize :: "64 word"
  flagPreferredSource :: string
  flagParseError :: "error option"
  homedirExpand :: "string \<Rightarrow> error + string"
  statNotExist :: "string \<Rightarrow> bool"
  ReadFile :: "string \<Rightarrow> error + string"
  jsonParse :: "string \<Rightarrow> error + json"
  environ :: "string \<Rightarrow> string option"
  registryProviders :: "registry_Configuration list"

text \<open>
  \<^verbatim>\<open>initializeCommandLineConfig\<close>, read after \<^verbatim>\<open>flags.Parse\<close> has stored the
  values of the flags in it.
\<close>

definition initializeCommandLineConfig :: "runtime \<Rightarrow> Configuration" where
  "initializeCommandLineConfig rt =
     zeroConfiguration
       \<lparr>configFileLocation := flagConfigFile rt,
        IndentationSize := flagIndentSize rt,
        PreferredSource := flagPreferredSource rt\<rparr>"

text \<open>
  \<^verbatim>\<open>if expanded, err := homedir.Expand(location); nil == err { location = expanded }\<close>,
  a statement that both functions below contain.
\<close>

definition expandIfPossible :: "runtime \<Rightarrow> string \<Rightarrow> string" where
  "expandIfPossible rt location =
     (case homedirExpand rt location of Inr expanded \<Rightarrow> expanded | Inl err \<Rightarrow> location)"

text \<open>
  \<^verbatim>\<open>json.Unmarshal(fileContents, &conf)\<close>: a syntax error of the text is returned
  before \<^verbatim>\<open>UnmarshalJSON\<close> is called.
\<close>

definition json_Unmarshal ::
  "runtime \<Rightarrow> string \<Rightarrow> Configuration \<Rightarrow> error + Configuration \<times> error option" where
  "json_Unmarshal rt data conf =
     (case jsonParse rt data of
        Inl err \<Rightarrow> Inr (conf, Some err)
      | Inr j \<Rightarrow> UnmarshalJSON (registryProviders rt) conf j)"

text \<open>
  \<^verbatim>\<open>initializeFileConfig\<close>.  \<open>Inl\<close> is a panic; otherwise the function returns
  the configuration together with the error.
\<close>

definition initializeFileConfig ::
  "runtime \<Rightarrow> string \<Rightarrow> error + Configuration \<times> error option" where
  "initializeFileConfig rt fileLocation =
     (let conf = zeroConfiguration;
          fileLocation = expandIfPossible rt fileLocation
      in case ReadFile rt fileLocation of
           Inl err \<Rightarrow> Inr (conf, Some err)
         | Inr fileContents \<Rightarrow>
             if length fileContents > 0 then json_Unmarshal rt fileContents conf
             else Inr (conf, None))"

text \<open>
  The block of \<^verbatim>\<open>NewFromRuntime\<close> that settles the location of the file to load:
  the location of the command line or, when that is empty and the default
  location is not, the expanded default location if \<^verbatim>\<open>os.Stat\<close> does not report
  that it is missing.  It returns the location (the local variable
  \<^verbatim>\<open>configFileLocation\<close> of the source) and the default configuration with its
  expanded location.
\<close>

definition resolveConfigFile :: "runtime \<Rightarrow> Configuration \<Rightarrow> Configuration \<Rightarrow> string \<times> Configuration" where
  "resolveConfigFile rt commandLineConfig defaults =
     (let location = configFileLocation commandLineConfig
      in if location = [] \<and> configFileLocation defaults \<noteq> [] then
           (let defaults =
                  defaults\<lparr>configFileLocation :=
                    expandIfPossible rt (configFileLocation defaults)\<rparr>
            in if \<not> statNotExist rt (configFileLocation defaults)
               then (configFileLocation defaults, defaults)
               else (location, defaults))
         else (location, defaults))"

text \<open>
  \<^verbatim>\<open>NewFromRuntime\<close>.  \<open>Inl\<close> is a panic; otherwise the function returns the
  configuration together with the error.
\<close>

definition NewFromRuntime ::
  "runtime \<Rightarrow> (string \<times> registry_Configuration option) list \<Rightarrow> string \<Rightarrow> Configuration \<Rightarrow>
   error + Configuration \<times> error option" where
  "NewFromRuntime rt providerConfs defaultConfigFileLocation defaults =
     (let conf = zeroConfiguration;
          fileConfig = zeroConfiguration;
          defaults = defaults\<lparr>configFileLocation := defaultConfigFileLocation\<rparr>;
          commandLineConfig = initializeCommandLineConfig rt;
          err = flagParseError rt
      in case
           (if err = None then
              (let (location, defaults) =
                     resolveConfigFile rt commandLineConfig defaults
               in if location \<noteq> [] then
                    (case initializeFileConfig rt location of
                       Inl panic \<Rightarrow> Inl panic
                     | Inr (fileConfig, err) \<Rightarrow>
                         Inr (fileConfig,
                              if err \<noteq> None
                              then Some (ErrorString ''error reading config file'')
                              else err,
                              defaults))
                  else Inr (fileConfig, err, defaults))
            else Inr (fileConfig, err, defaults))
         of
           Inl panic \<Rightarrow> Inl panic
         | Inr (fileConfig, err, defaults) \<Rightarrow>
             (let (conf, err) =
                    (if err = None then
                       mergeConfigurations
                         [commandLineConfig, fileConfig,
                          initializeEnvironmentConfig (environ rt), defaults]
                     else (conf, err))
              in Inr (conf\<lparr>providerConfigs := providerConfs\<rparr>, err)))"

subsection \<open>Example surroundings\<close>

text \<open>
  Concrete surroundings for the examples below: a machine on which no file
  exists, with an empty command line and an empty environment, and the defaults
  that \<^verbatim>\<open>define.go\<close> passes (an indentation of 2 and the Glosbe provider).
\<close>

definition exampleRuntime :: runtime where
  "exampleRuntime =
     \<lparr>flagConfigFile = [], flagIndentSize = 0, flagPreferredSource = [],
      flagParseError = None,
      homedirExpand = (\<lambda>location. Inr location),
      statNotExist = (\<lambda>location. True),
      ReadFile = (\<lambda>location. Inl (OtherError ''no such file or directory'')),
      jsonParse = (\<lambda>data. Inl (OtherError ''invalid character'')),
      environ = Map.empty,
      registryProviders = []\<rparr>"

definition exampleDefaults :: Configuration where
  "exampleDefaults = zeroConfiguration\<lparr>IndentationSize := 2, PreferredSource := ''glosbe''\<rparr>"

section \<open>Properties of the Oxford provider\<close>

text \<open>
  C3. For every Oxford provider configuration, \<open>Provide\<close> returns
  \<open>RequiredConfigError {Key: "AppID"}\<close> whenever \<open>AppID\<close> is empty (whatever
  \<open>AppKey\<close> is), \<open>RequiredConfigError {Key: "AppKey"}\<close> whenever \<open>AppID\<close> is
  non-empty and \<open>AppKey\<close> is empty, and a source with no error whenever both are
  non-empty.
\<close>

theorem Provide_required_config:
  "(AppID conf = [] \<longrightarrow> Provide conf = Inl (RequiredConfigError ''AppID'')) \<and>
   (AppID conf \<noteq> [] \<and> AppKey conf = [] \<longrightarrow>
      Provide conf = Inl (RequiredConfigError ''AppKey'')) \<and>
   (AppID conf \<noteq> [] \<and> AppKey conf \<noteq> [] \<longrightarrow>
      (\<exists>s. Provide conf = Inr s \<and> s = New (AppID conf) (AppKey conf)))"
  by (simp add: Provide_def)

theorem Provide_required_config_witness:
  "Provide \<lparr>AppID = [], AppKey = ''k''\<rparr> = Inl (RequiredConfigError ''AppID'') \<and>
   Provide \<lparr>AppID = ''i'', AppKey = []\<rparr> = Inl (RequiredConfigError ''AppKey'') \<and>
   Provide \<lparr>AppID = ''i'', AppKey = ''k''\<rparr> = Inr (New ''i'' ''k'')"
  using Provide_required_config [of "\<lparr>AppID = [], AppKey = ''k''\<rparr>"]
    Provide_required_config [of "\<lparr>AppID = ''i'', AppKey = []\<rparr>"]
    Provide_required_config [of "\<lparr>AppID = ''i'', AppKey = ''k''\<rparr>"]
  by simp

section \<open>Properties of the configuration merge\<close>

lemma mergeLoop_no_error: "snd (mergeLoop acc confs) = None"
  by (induction confs arbitrary: acc) (simp_all add: mergo_Merge_def)

lemma mergeLoop_IndentationSize:
  "IndentationSize (fst (mergeLoop acc confs)) =
     first_nonzero 0 (IndentationSize acc # map IndentationSize confs)"
  by (induction confs arbitrary: acc) (simp_all add: mergo_Merge_def mergeField_def)

lemma mergeLoop_PreferredSource:
  "PreferredSource (fst (mergeLoop acc confs)) =
     first_nonzero [] (PreferredSource acc # map PreferredSource confs)"
  by (induction confs arbitrary: acc) (simp_all add: mergo_Merge_def mergeField_def)

lemma mergeLoop_private:
  "configFileLocation (fst (mergeLoop acc confs)) = configFileLocation acc \<and>
   providerConfigs (fst (mergeLoop acc confs)) = providerConfigs acc"
  by (induction confs arbitrary: acc) (simp_all add: mergo_Merge_def mergeField_def)

lemma first_nonzero_again:
  "first_nonzero z (first_nonzero z (a # ys) # ys) = first_nonzero z (a # ys)"
  by simp

lemma mergeLoop_again:
  "mergeLoop (fst (mergeLoop acc confs)) confs = mergeLoop acc confs"
proof (rule prod_eqI)
  let ?m = "fst (mergeLoop acc confs)"
  have "IndentationSize (fst (mergeLoop ?m confs)) = IndentationSize ?m"
    unfolding mergeLoop_IndentationSize by (rule first_nonzero_again)
  moreover have "PreferredSource (fst (mergeLoop ?m confs)) = PreferredSource ?m"
    unfolding mergeLoop_PreferredSource by (rule first_nonzero_again)
  moreover have "configFileLocation (fst (mergeLoop ?m confs)) = configFileLocation ?m"
    "providerConfigs (fst (mergeLoop ?m confs)) = providerConfigs ?m"
    by (simp_all add: mergeLoop_private)
  ultimately show "fst (mergeLoop ?m confs) = fst (mergeLoop acc confs)"
    by simp
  show "snd (mergeLoop ?m confs) = snd (mergeLoop acc confs)"
    by (simp add: mergeLoop_no_error)
qed

text \<open>
  C1, as stated, asks of every field of \<open>Configuration\<close> that the merged value
  be the first non-zero one among the four sources.  It fails for the private
  field \<open>configFileLocation\<close>: a location given in the first source is not
  carried into the merged configuration.
\<close>

theorem mergeConfigurations_private_field_counterexample:
  "configFileLocation
     (fst (mergeConfigurations
        [zeroConfiguration\<lparr>configFileLocation := ''a.json''\<rparr>,
         zeroConfiguration, zeroConfiguration, zeroConfiguration]))
   \<noteq> first_nonzero [] [''a.json'', [], [], []]"
  by (simp add: mergeConfigurations_def mergo_Merge_def mergeField_def
      zeroConfiguration_def)

text \<open>
  C1, amended.  For four configurations A (flags), B (file), C (environment) and
  D (defaults) merged in that order, the merge returns no error, and each
  exported field (\<open>IndentationSize\<close>, \<open>PreferredSource\<close>) of the merged
  configuration is the first non-zero value of that field among A, B, C, D, and
  zero if all four are zero.  The private fields \<open>configFileLocation\<close> and
  \<open>providerConfigs\<close> are not merged: they are zero-valued in the result.
\<close>

theorem mergeConfigurations_precedence:
  "mergeConfigurations [A, B, C, D] = (m, e) \<Longrightarrow>
     e = None \<and>
     IndentationSize m =
       first_nonzero 0
         [IndentationSize A, IndentationSize B, IndentationSize C, IndentationSize D] \<and>
     PreferredSource m =
       first_nonzero []
         [PreferredSource A, PreferredSource B, PreferredSource C, PreferredSource D] \<and>
     configFileLocation m = [] \<and> providerConfigs m = []"
proof -
  assume r: "mergeConfigurations [A, B, C, D] = (m, e)"
  let ?confs = "[A, B, C, D]"
  from r have m: "m = fst (mergeLoop zeroConfiguration ?confs)"
    and e: "e = snd (mergeLoop zeroConfiguration ?confs)"
    by (simp_all add: mergeConfigurations_def)
  have "e = None" unfolding e by (rule mergeLoop_no_error)
  moreover have "IndentationSize m =
      first_nonzero 0
        [IndentationSize A, IndentationSize B, IndentationSize C, IndentationSize D]"
    unfolding m mergeLoop_IndentationSize by (simp add: zeroConfiguration_def)
  moreover have "PreferredSource m =
      first_nonzero []
        [PreferredSource A, PreferredSource B, PreferredSource C, PreferredSource D]"
    unfolding m mergeLoop_PreferredSource by (simp add: zeroConfiguration_def)
  moreover have "configFileLocation m = [] \<and> providerConfigs m = []"
  proof -
    have "configFileLocation m = configFileLocation zeroConfiguration \<and>
        providerConfigs m = providerConfigs zeroConfiguration"
      unfolding m by (rule mergeLoop_private)
    then show ?thesis by (simp add: zeroConfiguration_def)
  qed
  ultimately show ?thesis by simp
qed

theorem mergeConfigurations_precedence_witness:
  "mergeConfigurations
     [zeroConfiguration\<lparr>PreferredSource := ''oxford''\<rparr>,
      zeroConfiguration\<lparr>IndentationSize := 4\<rparr>,
      zeroConfiguration\<lparr>IndentationSize := 8, PreferredSource := ''webster''\<rparr>,
      zeroConfiguration\<lparr>IndentationSize := 2, PreferredSource := ''glosbe''\<rparr>]
   = (zeroConfiguration\<lparr>IndentationSize := 4, PreferredSource := ''oxford''\<rparr>, None) \<and>
   first_nonzero (0 :: 64 word) [0, 4, 8, 2] = 4 \<and>
   first_nonzero [] [''oxford'', [], ''webster'', ''glosbe''] = ''oxford''"
proof -
  let ?A = "zeroConfiguration\<lparr>PreferredSource := ''oxford''\<rparr>"
  let ?B = "zeroConfiguration\<lparr>IndentationSize := 4\<rparr>"
  let ?C = "zeroConfiguration\<lparr>IndentationSize := 8, PreferredSource := ''webster''\<rparr>"
  let ?D = "zeroConfiguration\<lparr>IndentationSize := 2, PreferredSource := ''glosbe''\<rparr>"
  have run: "mergeConfigurations [?A, ?B, ?C, ?D] =
      (zeroConfiguration\<lparr>IndentationSize := 4, PreferredSource := ''oxford''\<rparr>, None)"
    by (simp add: mergeConfigurations_def mergo_Merge_def mergeField_def
        zeroConfiguration_def)
  from mergeConfigurations_precedence [OF run] run show ?thesis
    by (simp add: zeroConfiguration_def)
qed

text \<open>
  C8. Merging the same ordered list of sources [A, B, C, D] twice yields
  identical results: whenever one run returns \<open>(m1, e1)\<close> and another run on
  the same sources returns \<open>(m2, e2)\<close>, the two configurations are equal and
  neither run reports an error.  A merge starts from a fresh zero-valued
  accumulator and reads nothing but its arguments; merging the same sources once
  more onto the merged configuration itself leaves it unchanged.
\<close>

theorem mergeConfigurations_repeatable:
  "mergeConfigurations [A, B, C, D] = (m1, e1) \<Longrightarrow>
   mergeConfigurations [A, B, C, D] = (m2, e2) \<Longrightarrow>
     m1 = m2 \<and> e1 = None \<and> e2 = None \<and>
     mergeLoop m1 [A, B, C, D] = (m1, None)"
proof -
  assume r1: "mergeConfigurations [A, B, C, D] = (m1, e1)"
    and r2: "mergeConfigurations [A, B, C, D] = (m2, e2)"
  from r1 have r': "(m1, e1) = mergeLoop zeroConfiguration [A, B, C, D]"
    by (simp add: mergeConfigurations_def)
  have "snd (mergeLoop zeroConfiguration [A, B, C, D]) = None"
    by (rule mergeLoop_no_error)
  with r' have e1: "e1 = None" by (metis snd_conv)
  have "mergeLoop (fst (mergeLoop zeroConfiguration [A, B, C, D])) [A, B, C, D] =
      mergeLoop zeroConfiguration [A, B, C, D]"
    by (rule mergeLoop_again)
  with r' have "mergeLoop m1 [A, B, C, D] = (m1, e1)" by (metis fst_conv)
  with e1 r1 r2 show ?thesis by simp
qed

theorem mergeConfigurations_repeatable_witness:
  "mergeConfigurations
     [zeroConfiguration, zeroConfiguration\<lparr>IndentationSize := 4\<rparr>,
      zeroConfiguration\<lparr>PreferredSource := ''webster''\<rparr>,
      zeroConfiguration\<lparr>IndentationSize := 2, PreferredSource := ''glosbe''\<rparr>]
   = (zeroConfiguration\<lparr>IndentationSize := 4, PreferredSource := ''webster''\<rparr>, None) \<and>
   mergeLoop (zeroConfiguration\<lparr>IndentationSize := 4, PreferredSource := ''webster''\<rparr>)
     [zeroConfiguration, zeroConfiguration\<lparr>IndentationSize := 4\<rparr>,
      zeroConfiguration\<lparr>PreferredSource := ''webster''\<rparr>,
      zeroConfiguration\<lparr>IndentationSize := 2, PreferredSource := ''glosbe''\<rparr>]
   = (zeroConfiguration\<lparr>IndentationSize := 4, PreferredSource := ''webster''\<rparr>, None)"
proof -
  let ?A = "zeroConfiguration"
  let ?B = "zeroConfiguration\<lparr>IndentationSize := 4\<rparr>"
  let ?C = "zeroConfiguration\<lparr>PreferredSource := ''webster''\<rparr>"
  let ?D = "zeroConfiguration\<lparr>IndentationSize := 2, PreferredSource := ''glosbe''\<rparr>"
  let ?r = "(zeroConfiguration\<lparr>IndentationSize := 4, PreferredSource := ''webster''\<rparr>,
             None :: error option)"
  have run: "mergeConfigurations [?A, ?B, ?C, ?D] = ?r"
    by (simp add: mergeConfigurations_def mergo_Merge_def mergeField_def
        zeroConfiguration_def)
  from mergeConfigurations_repeatable [OF run run] run show ?thesis by simp
qed

section \<open>Properties of the environment layer\<close>

lemma digitVal_le: "isDigit c \<Longrightarrow> digitVal c \<le> 9"
  unfolding isDigit_def digitVal_def by arith

lemma decimal_fold_mono: "n \<le> foldl (\<lambda>a c. a * 10 + digitVal c) n s"
proof (induction s arbitrary: n)
  case Nil
  show ?case by simp
next
  case (Cons c cs)
  have "n \<le> n * 10 + digitVal c" by simp
  also have "\<dots> \<le> foldl (\<lambda>a c. a * 10 + digitVal c) (n * 10 + digitVal c) cs"
    by (rule Cons.IH)
  finally show ?case by simp
qed

lemma parseUintLoop_Inr_iff:
  assumes "maxVal < 2 ^ 64"
  shows "n \<le> maxVal \<Longrightarrow>
     parseUintLoop maxVal n s = Inr v \<longleftrightarrow>
       list_all isDigit s \<and> foldl (\<lambda>a c. a * 10 + digitVal c) n s \<le> maxVal \<and>
       v = foldl (\<lambda>a c. a * 10 + digitVal c) n s"
proof (induction s arbitrary: n)
  case Nil
  then show ?case by auto
next
  case (Cons c cs)
  let ?f = "\<lambda>a c. a * 10 + digitVal c"
  let ?m = "n * 10 + digitVal c"
  have mono: "?m \<le> foldl ?f ?m cs" by (rule decimal_fold_mono)
  show ?case
  proof (cases "isDigit c")
    case False
    then show ?thesis by simp
  next
    case dig: True
    then have d9: "digitVal c \<le> 9" by (rule digitVal_le)
    show ?thesis
    proof (cases "n \<ge> cutoff")
      case True
      then have "?m > maxVal" using assms by (simp add: cutoff_def)
      with mono True dig show ?thesis by simp
    next
      case small: False
      then have n10: "n * 10 < 2 ^ 64" by (simp add: cutoff_def)
      show ?thesis
      proof (cases "?m < 2 ^ 64")
        case True
        then have md: "?m mod 2 ^ 64 = ?m" by simp
        show ?thesis
        proof (cases "?m > maxVal")
          case True
          with mono dig small md show ?thesis by (simp add: Let_def)
        next
          case False
          then have le: "?m \<le> maxVal" by simp
          from Cons.IH [OF le] dig small md False show ?thesis
            by (simp add: Let_def)
        qed
      next
        case False
        then have ge: "2 ^ 64 \<le> ?m" by simp
        have "?m < 2 * 2 ^ 64" using n10 d9 by simp
        then have lt: "?m - 2 ^ 64 < 2 ^ 64" using ge by simp
        have "?m mod 2 ^ 64 = (?m - 2 ^ 64) mod 2 ^ 64"
          using ge by (rule le_mod_geq)
        also have "\<dots> = ?m - 2 ^ 64" using lt by (rule mod_less)
        finally have "?m mod 2 ^ 64 = ?m - 2 ^ 64" .
        moreover have "?m - 2 ^ 64 < n * 10" using d9 ge by simp
        moreover have "?m > maxVal" using ge assms by simp
        ultimately show ?thesis using mono dig small by (simp add: Let_def)
      qed
    qed
  qed
qed

lemma ParseUint_uint:
  "ParseUint s 0 =  Inr v \<longleftrightarrow>
     s \<noteq> [] \<and> list_all isDigit s \<and> decimal s < 2 ^ 64 \<and> v = decimal s"
proof -
  have "parseUintLoop (2 ^ 64 - 1) 0 s = Inr v \<longleftrightarrow>
      list_all isDigit s \<and> decimal s \<le> 2 ^ 64 - 1 \<and> v = decimal s"
    unfolding decimal_def by (rule parseUintLoop_Inr_iff) simp_all
  then show ?thesis
    by (auto simp add: ParseUint_def IntSize_def)
qed

text \<open>
  C10, as stated, says that \<open>IndentationSize\<close> is set to the parsed value
  whenever the variable is set, numeric and not negative.  It fails for a string
  of decimal digits whose value does not fit a \<open>uint\<close>: the parse reports a
  range error and \<open>IndentationSize\<close> stays zero.
\<close>

theorem initializeEnvironmentConfig_range_counterexample:
  "list_all isDigit ''99999999999999999999'' \<and>
   decimal ''99999999999999999999'' = 99999999999999999999 \<and>
   unat (IndentationSize (initializeEnvironmentConfig
      [''DEFINE_APP_INDENT_SIZE'' \<mapsto> ''99999999999999999999''])) = 0"
  by (simp add: initializeEnvironmentConfig_def Getenv_def ParseUint_def IntSize_def
      isDigit_def digitVal_def cutoff_def decimal_def zeroConfiguration_def Let_def)

text \<open>
  C10, amended.  With \<open>s\<close> the value of \<open>DEFINE_APP_INDENT_SIZE\<close> (the empty
  string when it is unset), \<open>initializeEnvironmentConfig\<close> sets
  \<open>IndentationSize\<close> to the decimal value of \<open>s\<close> when \<open>s\<close> is a non-empty
  string of the digits 0-9 whose value is at most \<open>2^64 - 1\<close>, and leaves it
  zero in every other case (unset or empty, any other character such as a sign,
  or a value out of range).  \<open>PreferredSource\<close> is always the verbatim value of
  \<open>DEFINE_APP_PREFERRED_SOURCE\<close>, empty or not.
\<close>

theorem initializeEnvironmentConfig_fields:
  "unat (IndentationSize (initializeEnvironmentConfig env)) =
     (let s = Getenv env ''DEFINE_APP_INDENT_SIZE''
      in if s \<noteq> [] \<and> list_all isDigit s \<and> decimal s < 2 ^ 64 then decimal s else 0) \<and>
   PreferredSource (initializeEnvironmentConfig env) =
     Getenv env ''DEFINE_APP_PREFERRED_SOURCE''"
proof -
  let ?s = "Getenv env ''DEFINE_APP_INDENT_SIZE''"
  show ?thesis
  proof (cases "ParseUint ?s 0")
    case (Inl err)
    then have "\<not> (?s \<noteq> [] \<and> list_all isDigit ?s \<and> decimal ?s < 2 ^ 64)"
      using ParseUint_uint [of ?s "decimal ?s"] by auto
    with Inl show ?thesis
      by (auto simp add: initializeEnvironmentConfig_def Let_def zeroConfiguration_def)
  next
    case (Inr val)
    then have ok: "?s \<noteq> [] \<and> list_all isDigit ?s \<and> decimal ?s < 2 ^ 64"
      and val: "val = decimal ?s"
      using ParseUint_uint [of ?s val] by auto
    from ok have "unat (of_nat (decimal ?s) :: 64 word) = decimal ?s"
      by (simp add: unat_of_nat)
    with Inr ok val show ?thesis
      by (simp add: initializeEnvironmentConfig_def Let_def zeroConfiguration_def)
  qed
qed

theorem initializeEnvironmentConfig_fields_witness:
  "unat (IndentationSize (initializeEnvironmentConfig
      [''DEFINE_APP_INDENT_SIZE'' \<mapsto> ''4'',
       ''DEFINE_APP_PREFERRED_SOURCE'' \<mapsto> ''oxford''])) = 4 \<and>
   PreferredSource (initializeEnvironmentConfig
      [''DEFINE_APP_INDENT_SIZE'' \<mapsto> ''4'',
       ''DEFINE_APP_PREFERRED_SOURCE'' \<mapsto> ''oxford'']) = ''oxford''"
  using initializeEnvironmentConfig_fields
    [of "[''DEFINE_APP_INDENT_SIZE'' \<mapsto> ''4'',
          ''DEFINE_APP_PREFERRED_SOURCE'' \<mapsto> ''oxford'']"]
  by (simp add: Getenv_def isDigit_def digitVal_def decimal_def)

section \<open>Properties of result validation\<close>

text \<open>
  C4. For a result \<open>r\<close> of a lookup of the word \<open>w\<close> (the head word of \<open>r\<close>):
  validation fails with \<open>EmptyResultError\<close> carrying \<open>w\<close> when \<open>r\<close> has no
  entries, and also when every entry of \<open>r\<close> is content-free; it succeeds for a
  result with exactly one entry that holds one non-empty definition.  The Glosbe
  client reports a response without items in the same way, with the word it was
  asked for.
\<close>

theorem ValidateResult_empty:
  "Head r = w \<Longrightarrow>
   (EntryVals r = [] \<longrightarrow> ValidateResult r = Some (EmptyResultError w)) \<and>
   (list_all entryContentFree (EntryVals r) \<longrightarrow>
      ValidateResult r = Some (EmptyResultError w)) \<and>
   (\<forall>de s d. EntryVals r = [DictionaryEntryOf de] \<and> SenseVals de = [s] \<and>
       DefinitionVals s = [d] \<and> d \<noteq> [] \<longrightarrow> ValidateResult r = None) \<and>
   (\<forall>res st. TUC res = [] \<longrightarrow>
       fst (Define (\<lambda>u. Inr res) st w) = Inl (EmptyResultError w))"
  by (auto simp add: ValidateResult_def dictionaryContentFree_def senseContentFree_def
      allBlank_def Define_def Let_def)

theorem ValidateResult_empty_witness:
  "ValidateResult \<lparr>Head = ''cat'', Lang = ''en'', EntryVals = []\<rparr> =
     Some (EmptyResultError ''cat'') \<and>
   ValidateResult
     \<lparr>Head = ''cat'', Lang = ''en'',
      EntryVals = [DictionaryEntryOf zeroDictionaryEntryValue]\<rparr> =
     Some (EmptyResultError ''cat'') \<and>
   ValidateResult
     \<lparr>Head = ''cat'', Lang = ''en'',
      EntryVals =
        [DictionaryEntryOf
           (zeroDictionaryEntryValue
              \<lparr>SenseVals := [zeroSenseValue\<lparr>DefinitionVals := [''a small feline'']\<rparr>]\<rparr>)]\<rparr> =
     None \<and>
   fst (Define (\<lambda>u. Inr \<lparr>Result = ''ok'', TUC = [], Phrase = ''cat'', Dest = ''en''\<rparr>)
          initialState ''cat'') = Inl (EmptyResultError ''cat'')"
  using
    ValidateResult_empty
      [of "\<lparr>Head = ''cat'', Lang = ''en'', EntryVals = []\<rparr>" "''cat''"]
    ValidateResult_empty
      [of "\<lparr>Head = ''cat'', Lang = ''en'',
            EntryVals = [DictionaryEntryOf zeroDictionaryEntryValue]\<rparr>" "''cat''"]
    ValidateResult_empty
      [of "\<lparr>Head = ''cat'', Lang = ''en'',
            EntryVals =
              [DictionaryEntryOf
                 (zeroDictionaryEntryValue
                    \<lparr>SenseVals :=
                       [zeroSenseValue\<lparr>DefinitionVals := [''a small feline'']\<rparr>]\<rparr>)]\<rparr>"
          "''cat''"]
  by (simp add: zeroDictionaryEntryValue_def zeroSenseValue_def dictionaryContentFree_def)

section \<open>Properties of the Glosbe client\<close>






lemma valuesGet_valuesPut: "valuesGet (valuesPut m k vs) k = vs"
  by (induction m k vs rule: valuesPut.induct) simp_all

text \<open>
  C7, as stated, says that \<open>Define\<close> leaves all package-level state unchanged.
  It fails on the state that \<^verbatim>\<open>init\<close> leaves: a lookup of "cat" rewrites the
  query string of the package-level \<^verbatim>\<open>apiURL\<close>.
\<close>

theorem Define_writes_apiURL_counterexample:
  "RawQuery (apiURL (snd (Define (\<lambda>u. Inl (OtherError ''no network'')) initialState ''cat'')))
     = ''dest=en&format=json&from=en&phrase=cat'' \<and>
   snd (Define (\<lambda>u. Inl (OtherError ''no network'')) initialState ''cat'') \<noteq> initialState"
  by (simp add: Define_def initialState_def Query_def Set_def Encode_def wordParameter_def
      cut_def QueryEscape_def escapeByte_def shouldEscape_def isAlnum_def sortStrings_def
      Let_def jsonMIMEType_def)

text \<open>
  C7, amended.  For every word \<open>w\<close>, whatever the network answers, the Glosbe
  client's \<open>Define w\<close> changes nothing of the package-level state but the
  \<open>RawQuery\<close> field of \<^verbatim>\<open>apiURL\<close>, which it overwrites with the encoding of the
  former query with its \<^verbatim>\<open>phrase\<close> parameter set to \<open>w\<close>: the other fields of
  \<^verbatim>\<open>apiURL\<close> and \<^verbatim>\<open>validMIMETypes\<close> are as before, and the state is unchanged
  exactly when \<open>RawQuery\<close> already was that encoding.
\<close>

theorem Define_frame:
  "snd (Define fetch st w) =
     st\<lparr>apiURL :=
          (apiURL st)\<lparr>RawQuery := Encode (Set (Query (apiURL st)) wordParameter w)\<rparr>\<rparr> \<and>
   validMIMETypes (snd (Define fetch st w)) = validMIMETypes st \<and>
   Scheme (apiURL (snd (Define fetch st w))) = Scheme (apiURL st) \<and>
   Host (apiURL (snd (Define fetch st w))) = Host (apiURL st) \<and>
   Path (apiURL (snd (Define fetch st w))) = Path (apiURL st) \<and>
   Fragment (apiURL (snd (Define fetch st w))) = Fragment (apiURL st) \<and>
   valuesGet (Set (Query (apiURL st)) wordParameter w) wordParameter = [w] \<and>
   (snd (Define fetch st w) = st \<longleftrightarrow>
      RawQuery (apiURL st) = Encode (Set (Query (apiURL st)) wordParameter w))"
proof -
  let ?q = "Encode (Set (Query (apiURL st)) wordParameter w)"
  have eq: "snd (Define fetch st w) = st\<lparr>apiURL := (apiURL st)\<lparr>RawQuery := ?q\<rparr>\<rparr>"
    by (simp add: Define_def Let_def)
  have "st\<lparr>apiURL := (apiURL st)\<lparr>RawQuery := ?q\<rparr>\<rparr> = st \<longleftrightarrow> RawQuery (apiURL st) = ?q"
  proof
    assume "st\<lparr>apiURL := (apiURL st)\<lparr>RawQuery := ?q\<rparr>\<rparr> = st"
    then have "RawQuery (apiURL (st\<lparr>apiURL := (apiURL st)\<lparr>RawQuery := ?q\<rparr>\<rparr>)) =
        RawQuery (apiURL st)"
      by simp
    then show "RawQuery (apiURL st) = ?q" by simp
  next
    assume "RawQuery (apiURL st) = ?q"
    then have "(apiURL st)\<lparr>RawQuery := ?q\<rparr> = apiURL st" by simp
    then show "st\<lparr>apiURL := (apiURL st)\<lparr>RawQuery := ?q\<rparr>\<rparr> = st" by simp
  qed
  moreover have "valuesGet (Set (Query (apiURL st)) wordParameter w) wordParameter = [w]"
    by (simp add: Set_def valuesGet_valuesPut)
  ultimately show ?thesis using eq by simp
qed

theorem Define_frame_witness:
  "snd (Define (\<lambda>u. Inl (OtherError ''no network'')) initialState ''cat'') =
     initialState\<lparr>apiURL :=
       (apiURL initialState)\<lparr>RawQuery := ''dest=en&format=json&from=en&phrase=cat''\<rparr>\<rparr>"
proof -
  have "Encode (Set (Query (apiURL initialState)) wordParameter ''cat'') =
      ''dest=en&format=json&from=en&phrase=cat''"
    by (simp add: initialState_def Query_def Set_def Encode_def wordParameter_def
        cut_def QueryEscape_def escapeByte_def shouldEscape_def isAlnum_def sortStrings_def)
  with Define_frame [of "\<lambda>u. Inl (OtherError ''no network'')" initialState "''cat''"]
  show ?thesis by simp
qed

section \<open>Properties of \<open>NewFromRuntime\<close>\<close>

lemma mergo_Merge_zero: "mergo_Merge acc zeroConfiguration = Inr acc"
  by (simp add: mergo_Merge_def mergeField_def zeroConfiguration_def)

lemma mergo_Merge_location:
  "mergo_Merge dst (src\<lparr>configFileLocation := x\<rparr>) = mergo_Merge dst src"
  by (simp add: mergo_Merge_def mergeField_def)

lemma resolveConfigFile_none:
  "flagConfigFile rt = [] \<Longrightarrow>
   dl = [] \<or> statNotExist rt (expandIfPossible rt dl) \<Longrightarrow>
   \<exists>x. resolveConfigFile rt (initializeCommandLineConfig rt)
      (defaults\<lparr>configFileLocation := dl\<rparr>) = ([], defaults\<lparr>configFileLocation := x\<rparr>)"
  by (auto simp add: resolveConfigFile_def initializeCommandLineConfig_def Let_def
      zeroConfiguration_def)

lemma resolveConfigFile_flag:
  "flagConfigFile rt \<noteq> [] \<Longrightarrow>
   resolveConfigFile rt (initializeCommandLineConfig rt) d = (flagConfigFile rt, d)"
  by (simp add: resolveConfigFile_def initializeCommandLineConfig_def Let_def
      zeroConfiguration_def)

lemma mergeConfigurations_Ex: "\<exists>m. mergeConfigurations confs = (m, None)"
  using mergeLoop_no_error [of zeroConfiguration confs]
  by (cases "mergeLoop zeroConfiguration confs") (simp add: mergeConfigurations_def)

text \<open>
  C5, as stated, promises a construction without error whenever no
  \<^verbatim>\<open>--config-file\<close> flag is given and the default path does not exist.  It fails
  when the command line itself does not parse: the error of \<^verbatim>\<open>flags.Parse\<close> is
  returned, and nothing is merged.
\<close>

theorem NewFromRuntime_parse_error_counterexample:
  "flagConfigFile (exampleRuntime\<lparr>flagParseError := Some (OtherError ''unknown flag: --colour'')\<rparr>)
     = [] \<and>
   statNotExist (exampleRuntime\<lparr>flagParseError := Some (OtherError ''unknown flag: --colour'')\<rparr>)
     ''~/.define.conf.json'' \<and>
   NewFromRuntime
     (exampleRuntime\<lparr>flagParseError := Some (OtherError ''unknown flag: --colour'')\<rparr>)
     [] ''~/.define.conf.json'' exampleDefaults =
     Inr (zeroConfiguration, Some (OtherError ''unknown flag: --colour''))"
  by (simp add: NewFromRuntime_def exampleRuntime_def zeroConfiguration_def Let_def)

text \<open>
  C5, amended.  When the command line parses without error, no \<^verbatim>\<open>--config-file\<close>
  flag is given and the default path is empty or does not exist, the
  construction returns no error, and its configuration is the merge of the
  flags, the environment and the defaults only (with the provider
  configurations attached); when an explicit config-file path is given and the
  file cannot be read, the construction returns an error.
\<close>

theorem NewFromRuntime_config_file:
  "(flagParseError rt = None \<and> flagConfigFile rt = [] \<and>
      (dl = [] \<or> statNotExist rt (expandIfPossible rt dl)) \<longrightarrow>
    NewFromRuntime rt pcs dl defaults =
      Inr ((fst (mergeConfigurations
                  [initializeCommandLineConfig rt,
                   initializeEnvironmentConfig (environ rt), defaults]))
             \<lparr>providerConfigs := pcs\<rparr>, None)) \<and>
   (flagConfigFile rt \<noteq> [] \<and>
      ReadFile rt (expandIfPossible rt (flagConfigFile rt)) = Inl e \<longrightarrow>
    (\<exists>conf err. NewFromRuntime rt pcs dl defaults = Inr (conf, Some err)))"
proof (intro conjI impI)
  assume a: "flagParseError rt = None \<and> flagConfigFile rt = [] \<and>
      (dl = [] \<or> statNotExist rt (expandIfPossible rt dl))"
  then obtain x where r: "resolveConfigFile rt (initializeCommandLineConfig rt)
      (defaults\<lparr>configFileLocation := dl\<rparr>) = ([], defaults\<lparr>configFileLocation := x\<rparr>)"
    using resolveConfigFile_none [of rt dl defaults] by blast
  let ?cmd = "initializeCommandLineConfig rt"
  let ?env = "initializeEnvironmentConfig (environ rt)"
  have m: "mergeConfigurations [?cmd, zeroConfiguration, ?env, defaults\<lparr>configFileLocation := x\<rparr>]
      = mergeConfigurations [?cmd, ?env, defaults]"
    by (simp add: mergeConfigurations_def mergo_Merge_zero mergo_Merge_location
        split: sum.splits)
  obtain mm where mm: "mergeConfigurations [?cmd, ?env, defaults] = (mm, None)"
    using mergeConfigurations_Ex by blast
  from a r m mm show "NewFromRuntime rt pcs dl defaults =
      Inr ((fst (mergeConfigurations [?cmd, ?env, defaults]))\<lparr>providerConfigs := pcs\<rparr>, None)"
    by (simp add: NewFromRuntime_def Let_def)
next
  assume b: "flagConfigFile rt \<noteq> [] \<and>
      ReadFile rt (expandIfPossible rt (flagConfigFile rt)) = Inl e"
  then have f: "initializeFileConfig rt (flagConfigFile rt) = Inr (zeroConfiguration, Some e)"
    by (simp add: initializeFileConfig_def Let_def)
  show "\<exists>conf err. NewFromRuntime rt pcs dl defaults = Inr (conf, Some err)"
  proof (cases "flagParseError rt")
    case None
    with b f show ?thesis
      by (simp add: NewFromRuntime_def Let_def resolveConfigFile_flag)
  next
    case (Some pe)
    then show ?thesis by (simp add: NewFromRuntime_def Let_def)
  qed
qed

theorem NewFromRuntime_config_file_witness:
  "NewFromRuntime exampleRuntime [] ''~/.define.conf.json'' exampleDefaults =
     Inr (exampleDefaults, None) \<and>
   (\<exists>conf err.
      NewFromRuntime (exampleRuntime\<lparr>flagConfigFile := ''missing.json''\<rparr>) []
        ''~/.define.conf.json'' exampleDefaults = Inr (conf, Some err))"
proof -
  have m: "fst (mergeConfigurations
        [initializeCommandLineConfig exampleRuntime,
         initializeEnvironmentConfig (environ exampleRuntime), exampleDefaults]) =
      exampleDefaults"
    by (simp add: mergeConfigurations_def mergo_Merge_def mergeField_def
        initializeCommandLineConfig_def initializeEnvironmentConfig_def Getenv_def
        ParseUint_def exampleRuntime_def exampleDefaults_def zeroConfiguration_def)
  have p: "exampleDefaults\<lparr>providerConfigs := []\<rparr> = exampleDefaults"
    by (simp add: exampleDefaults_def zeroConfiguration_def)
  from NewFromRuntime_config_file
    [where rt = exampleRuntime and dl = "''~/.define.conf.json''" and pcs = "[]"
       and defaults = exampleDefaults]
  have one: "NewFromRuntime exampleRuntime [] ''~/.define.conf.json'' exampleDefaults =
      Inr (exampleDefaults, None)"
    unfolding m p by (simp add: exampleRuntime_def)
  from NewFromRuntime_config_file
    [where rt = "exampleRuntime\<lparr>flagConfigFile := ''missing.json''\<rparr>"
       and e = "OtherError ''no such file or directory''" and pcs = "[]"
       and dl = "''~/.define.conf.json''" and defaults = exampleDefaults]
  have two: "\<exists>conf err.
      NewFromRuntime (exampleRuntime\<lparr>flagConfigFile := ''missing.json''\<rparr>) []
        ''~/.define.conf.json'' exampleDefaults = Inr (conf, Some err)"
    by (simp add: exampleRuntime_def)
  from one two show ?thesis by simp
qed



section \<open>Properties of the serialization\<close>

lemma map_of_mapAssign: "map_of (mapAssign m k v) = (map_of m)(k \<mapsto> v)"
  by (induction m k v rule: mapAssign.induct) auto

lemma keys_mapAssign: "fst ` set (mapAssign m k v) = insert k (fst ` set m)"
  by (induction m k v rule: mapAssign.induct) auto

lemma distinct_mapAssign:
  "distinct (map fst m) \<Longrightarrow> distinct (map fst (mapAssign m k v))"
proof (induction m k v rule: mapAssign.induct)
  case (1 key v)
  show ?case by simp
next
  case (2 k w m key v)
  then show ?case using keys_mapAssign [of m key v] by (auto simp: image_iff)
qed

lemma providerMember_sel: "fst (providerMember p) = JSONKey p" "snd (providerMember p) = encodeProvider p"
  by (simp_all add: providerMember_def)

lemma map_of_marshalLoop:
  "map_of (marshalLoop cm pcs) = map_of cm ++ map_of (rev (map providerMember (serializedProviders pcs)))"
proof (induction cm pcs rule: marshalLoop.induct)
  case (1 cm)
  show ?case by simp
next
  case (2 cm k pcs)
  then show ?case by simp
next
  case (3 cm k p pcs)
  show ?case
  proof (cases "fieldVals p = []")
    case True
    with 3 show ?thesis by simp
  next
    case False
    with 3 have "map_of (marshalLoop cm ((k, Some p) # pcs)) =
        map_of (mapAssign cm (JSONKey p) (encodeProvider p)) ++
          map_of (rev (map providerMember (serializedProviders pcs)))"
      by simp
    also have "\<dots> = map_of cm ++ ([JSONKey p \<mapsto> encodeProvider p] ++
          map_of (rev (map providerMember (serializedProviders pcs))))"
      by (simp add: map_of_mapAssign)
    finally show ?thesis using False by (simp add: providerMember_sel)
  qed
qed

lemma distinct_marshalLoop:
  "distinct (map fst cm) \<Longrightarrow> distinct (map fst (marshalLoop cm pcs))"
  by (induction cm pcs rule: marshalLoop.induct) (simp_all add: distinct_mapAssign)

lemma set_insertMember: "set (insertMember kv xs) = insert kv (set xs)"
  by (induction xs) auto

lemma set_sortMembers: "set (sortMembers kvs) = set kvs"
  by (induction kvs) (simp_all add: sortMembers_def set_insertMember)

lemma distinct_insertMember:
  "distinct (map fst (insertMember kv xs)) \<longleftrightarrow> fst kv \<notin> fst ` set xs \<and> distinct (map fst xs)"
  by (induction xs) (auto simp add: set_insertMember)

lemma distinct_sortMembers:
  "distinct (map fst kvs) \<Longrightarrow> distinct (map fst (sortMembers kvs))"
proof (induction kvs)
  case Nil
  show ?case by (simp add: sortMembers_def)
next
  case (Cons kv kvs)
  then have "distinct (map fst (foldr insertMember kvs []))" "fst kv \<notin> fst ` set kvs"
    by (simp_all add: sortMembers_def)
  moreover have "set (foldr insertMember kvs []) = set kvs"
    using set_sortMembers [of kvs] by (simp add: sortMembers_def)
  ultimately show ?case by (simp add: sortMembers_def distinct_insertMember)
qed

lemma map_of_sortMembers:
  assumes "distinct (map fst kvs)"
  shows "map_of (sortMembers kvs) = map_of kvs"
  using assms distinct_sortMembers [OF assms] set_sortMembers [of kvs]
  by (simp add: map_of_inject_set)

lemma rawLookup_distinct:
  assumes "distinct (map fst kvs)"
  shows "rawLookup kvs = map_of kvs"
proof -
  have "distinct (map fst (rev kvs))" using assms by (simp add: rev_map [symmetric])
  then have "map_of (rev kvs) = map_of kvs"
    using assms by (simp add: map_of_inject_set)
  then show ?thesis by (simp add: rawLookup_def fun_eq_iff)
qed

lemma fieldFor_exact: "key \<in> set names \<Longrightarrow> fieldFor names key = Some key"
  by (simp add: fieldFor_def)

lemma fieldFor_None_notin: "fieldFor names key = None \<Longrightarrow> key \<notin> set names"
  by (auto simp add: fieldFor_def split: if_splits)

lemma uint_in_range: "0 \<le> uint (w :: 64 word) \<and> uint w < 2 ^ 64"
  using uint_lt2p [of w] by simp

lemma decodeBaseLoop_members:
  assumes "list_all (\<lambda>(k, v).
      (k = ''IndentationSize'' \<and> v = JNumber (uint w)) \<or>
      (k = ''PreferredSource'' \<and> v = JString s) \<or>
      fieldFor [''IndentationSize'', ''PreferredSource''] k = None) kvs"
  shows "decodeBaseLoop c e kvs =
     (c\<lparr>IndentationSize :=
          if ''IndentationSize'' \<in> fst ` set kvs then w else IndentationSize c,
        PreferredSource :=
          if ''PreferredSource'' \<in> fst ` set kvs then s else PreferredSource c\<rparr>, e)"
  using assms
proof (induction kvs arbitrary: c)
  case Nil
  show ?case by simp
next
  case (Cons kv kvs)
  obtain k v where kv: "kv = (k, v)" by (cases kv)
  from Cons.prems have rest: "list_all (\<lambda>(k, v).
      (k = ''IndentationSize'' \<and> v = JNumber (uint w)) \<or>
      (k = ''PreferredSource'' \<and> v = JString s) \<or>
      fieldFor [''IndentationSize'', ''PreferredSource''] k = None) kvs"
    by simp
  note IH = Cons.IH [OF rest]
  from Cons.prems kv consider
      (ind) "k = ''IndentationSize''" "v = JNumber (uint w)"
    | (pref) "k = ''PreferredSource''" "v = JString s"
    | (other) "fieldFor [''IndentationSize'', ''PreferredSource''] k = None"
    by auto
  then show ?case
  proof cases
    case ind
    have f: "fieldFor [''IndentationSize'', ''PreferredSource''] ''IndentationSize'' =
        Some ''IndentationSize''"
      by (rule fieldFor_exact) simp
    show ?thesis
      unfolding kv ind using f uint_in_range [of w]
      by (simp add: IH)
  next
    case pref
    have f: "fieldFor [''IndentationSize'', ''PreferredSource''] ''PreferredSource'' =
        Some ''PreferredSource''"
      by (rule fieldFor_exact) simp
    show ?thesis
      unfolding kv pref using f by (simp add: IH)
  next
    case other
    then have "k \<noteq> ''IndentationSize''" "k \<noteq> ''PreferredSource''"
      using fieldFor_None_notin [OF other] by auto
    with other show ?thesis unfolding kv by (simp add: IH)
  qed
qed

lemma names_setField: "map fst (setField fs name v) = map fst fs"
  by (induction fs name v rule: setField.induct) simp_all

lemma names_storeAll: "map fst (storeAll fs kvs) = map fst fs"
  by (induction kvs arbitrary: fs) (auto simp add: storeAll_def names_setField)

lemma decodeProviderLoop_encoded:
  "fst ` set kvs \<subseteq> fst ` set (fieldVals conf) \<Longrightarrow>
   decodeProviderLoop conf (map (\<lambda>(name, v). (name, JString v)) kvs) =
     conf\<lparr>fieldVals := storeAll (fieldVals conf) kvs\<rparr>"
proof (induction kvs arbitrary: conf)
  case Nil
  show ?case by (simp add: storeAll_def)
next
  case (Cons kv kvs)
  obtain n v where kv: "kv = (n, v)" by (cases kv)
  with Cons.prems have n: "n \<in> set (map fst (fieldVals conf))" by auto
  let ?conf = "conf\<lparr>fieldVals := setField (fieldVals conf) n v\<rparr>"
  have "set (map fst (fieldVals ?conf)) = set (map fst (fieldVals conf))"
    by (simp add: names_setField)
  then have "fst ` set (fieldVals ?conf) = fst ` set (fieldVals conf)"
    by (simp only: set_map)
  with Cons.prems have "fst ` set kvs \<subseteq> fst ` set (fieldVals ?conf)"
    by auto
  from Cons.IH [OF this] n show ?case
    unfolding kv by (simp add: fieldFor_exact storeAll_def)
qed

lemma setField_other:
  "n \<noteq> name \<Longrightarrow> setField ((n, w) # fs) name v = (n, w) # setField fs name v"
  by simp

lemma storeAll_Cons_other:
  "n \<notin> fst ` set kvs \<Longrightarrow> storeAll ((n, w) # fs) kvs = (n, w) # storeAll fs kvs"
proof (induction kvs arbitrary: fs)
  case Nil
  show ?case by (simp add: storeAll_def)
next
  case (Cons kv kvs)
  obtain k v where kv: "kv = (k, v)" by (cases kv)
  with Cons.prems have "n \<noteq> k" "n \<notin> fst ` set kvs" by auto
  with Cons.IH [of "setField fs k v"] show ?case
    unfolding kv by (simp add: storeAll_def)
qed

lemma storeAll_same_names:
  "map fst fr = map fst fp \<Longrightarrow> distinct (map fst fp) \<Longrightarrow> storeAll fr fp = fp"
proof (induction fp arbitrary: fr)
  case Nil
  then show ?case by (simp add: storeAll_def)
next
  case (Cons kv fp)
  obtain n v where kv: "kv = (n, v)" by (cases kv)
  with Cons.prems obtain w fr' where fr: "fr = (n, w) # fr'" and names: "map fst fr' = map fst fp"
    by (cases fr) auto
  from Cons.prems kv have notin: "n \<notin> fst ` set fp" and dist: "distinct (map fst fp)"
    by auto
  have "storeAll fr (kv # fp) = storeAll ((n, v) # fr') fp"
    unfolding kv fr by (simp add: storeAll_def)
  also have "\<dots> = (n, v) # storeAll fr' fp"
    using notin by (rule storeAll_Cons_other)
  also have "storeAll fr' fp = fp" using names dist by (rule Cons.IH)
  finally show ?case by (simp add: kv)
qed

lemma decodeProvider_encodeProvider:
  assumes "JSONKey r = JSONKey p" "map fst (fieldVals r) = map fst (fieldVals p)"
    "distinct (map fst (fieldVals p))"
  shows "decodeProvider r (encodeProvider p) = p"
proof -
  have "set (map fst (fieldVals p)) = set (map fst (fieldVals r))"
    using assms(2) by simp
  then have sub: "fst ` set (fieldVals p) \<subseteq> fst ` set (fieldVals r)"
    by (simp only: set_map)
  have "decodeProvider r (encodeProvider p) = r\<lparr>fieldVals := storeAll (fieldVals r) (fieldVals p)\<rparr>"
    by (simp add: decodeProvider_def encodeProvider_def decodeProviderLoop_encoded [OF sub])
  also have "storeAll (fieldVals r) (fieldVals p) = fieldVals p"
    using assms(2,3) by (rule storeAll_same_names)
  finally show ?thesis using assms(1) by simp
qed

lemma attachLoop_map_of:
  assumes "distinct (map JSONKey reg)"
    and "list_all (\<lambda>r. rawLookup members (JSONKey r) \<noteq> Some JNull) reg"
  shows "\<exists>pcs'. attachLoop members pcs reg = Inr pcs' \<and>
     (\<forall>k. map_of pcs' k =
        (case find (\<lambda>r. JSONKey r = k) reg of
           None \<Rightarrow> map_of pcs k
         | Some r \<Rightarrow>
             (case rawLookup members k of
                None \<Rightarrow> map_of pcs k
              | Some raw \<Rightarrow> Some (Some (decodeProvider r raw)))))"
  using assms
proof (induction reg arbitrary: pcs)
  case Nil
  show ?case by simp
next
  case (Cons conf confs)
  from Cons.prems have d: "distinct (map JSONKey confs)"
    and notin: "JSONKey conf \<notin> JSONKey ` set confs"
    and nn: "rawLookup members (JSONKey conf) \<noteq> Some JNull"
    and rest: "list_all (\<lambda>r. rawLookup members (JSONKey r) \<noteq> Some JNull) confs"
    by auto
  have nofind: "find (\<lambda>r. JSONKey r = JSONKey conf) confs = None"
    using notin by (force simp add: find_None_iff image_iff)
  show ?case
  proof (cases "rawLookup members (JSONKey conf)")
    case None
    from Cons.IH [OF d rest, of pcs] obtain pcs' where
      run: "attachLoop members pcs confs = Inr pcs'" and
      m: "\<And>k. map_of pcs' k =
        (case find (\<lambda>r. JSONKey r = k) confs of
           None \<Rightarrow> map_of pcs k
         | Some r \<Rightarrow>
             (case rawLookup members k of
                None \<Rightarrow> map_of pcs k
              | Some raw \<Rightarrow> Some (Some (decodeProvider r raw))))"
      by blast
    have "attachLoop members pcs (conf # confs) = Inr pcs'"
      using None run by simp
    moreover have "\<forall>k. map_of pcs' k =
        (case find (\<lambda>r. JSONKey r = k) (conf # confs) of
           None \<Rightarrow> map_of pcs k
         | Some r \<Rightarrow>
             (case rawLookup members k of
                None \<Rightarrow> map_of pcs k
              | Some raw \<Rightarrow> Some (Some (decodeProvider r raw))))"
      using None nofind by (auto simp add: m)
    ultimately show ?thesis by blast
  next
    case (Some raw)
    let ?pcs1 = "mapAssign pcs (JSONKey conf) (Some (decodeProvider conf raw))"
    from Cons.IH [OF d rest, of ?pcs1] obtain pcs' where
      run: "attachLoop members ?pcs1 confs = Inr pcs'" and
      m: "\<And>k. map_of pcs' k =
        (case find (\<lambda>r. JSONKey r = k) confs of
           None \<Rightarrow> map_of ?pcs1 k
         | Some r \<Rightarrow>
             (case rawLookup members k of
                None \<Rightarrow> map_of ?pcs1 k
              | Some raw \<Rightarrow> Some (Some (decodeProvider r raw))))"
      by blast
    have "attachLoop members pcs (conf # confs) = Inr pcs'"
      using Some nn run by (cases raw) simp_all
    moreover have "\<forall>k. map_of pcs' k =
        (case find (\<lambda>r. JSONKey r = k) (conf # confs) of
           None \<Rightarrow> map_of pcs k
         | Some r \<Rightarrow>
             (case rawLookup members k of
                None \<Rightarrow> map_of pcs k
              | Some raw \<Rightarrow> Some (Some (decodeProvider r raw))))"
    proof
      fix k
      show "map_of pcs' k =
        (case find (\<lambda>r. JSONKey r = k) (conf # confs) of
           None \<Rightarrow> map_of pcs k
         | Some r \<Rightarrow>
             (case rawLookup members k of
                None \<Rightarrow> map_of pcs k
              | Some raw \<Rightarrow> Some (Some (decodeProvider r raw))))"
      proof (cases "k = JSONKey conf")
        case True
        with Some nofind show ?thesis by (simp add: m map_of_mapAssign)
      next
        case False
        then have "JSONKey conf \<noteq> k" by blast
        then show ?thesis
          by (simp add: m map_of_mapAssign split: option.splits)
      qed
    qed
    ultimately show ?thesis by blast
  qed
qed

lemma keys_serializedProviders:
  "list_all (\<lambda>(k, v). case v of None \<Rightarrow> True | Some p \<Rightarrow> k = JSONKey p) pcs \<Longrightarrow>
   JSONKey ` set (serializedProviders pcs) \<subseteq> fst ` set pcs"
  by (induction pcs rule: serializedProviders.induct) auto

lemma distinct_serializedProviders:
  "underOwnKeys pcs \<Longrightarrow> distinct (map JSONKey (serializedProviders pcs))"
  unfolding underOwnKeys_def
proof (induction pcs rule: serializedProviders.induct)
  case 1
  show ?case by simp
next
  case (2 k pcs)
  then show ?case by simp
next
  case (3 k p pcs)
  then have "JSONKey ` set (serializedProviders pcs) \<subseteq> fst ` set pcs"
    using keys_serializedProviders [of pcs] by simp
  with 3 show ?case by auto
qed

lemma map_of_members:
  assumes "distinct (map JSONKey ps)"
  shows "map_of (rev (map providerMember ps)) k =
     (case find (\<lambda>p. JSONKey p = k) ps of None \<Rightarrow> None | Some p \<Rightarrow> Some (encodeProvider p))"
proof -
  have "map fst (map providerMember ps) = map JSONKey ps"
    by (induction ps) (simp_all add: providerMember_def)
  with assms have "distinct (map fst (map providerMember ps))" by (simp only:)
  then have "rawLookup (map providerMember ps) = map_of (map providerMember ps)"
    by (rule rawLookup_distinct)
  then have "rawLookup (map providerMember ps) k = map_of (map providerMember ps) k"
    by simp
  then have "map_of (rev (map providerMember ps)) k = map_of (map providerMember ps) k"
    by (simp only: rawLookup_def)
  moreover have "map_of (map providerMember ps) k =
     (case find (\<lambda>p. JSONKey p = k) ps of None \<Rightarrow> None | Some p \<Rightarrow> Some (encodeProvider p))"
    by (induction ps) (auto simp add: providerMember_def)
  ultimately show ?thesis by simp
qed

lemma find_key:
  assumes "distinct (map JSONKey ps)" "p \<in> set ps"
  shows "find (\<lambda>q. JSONKey q = JSONKey p) ps = Some p"
  using assms by (induction ps) (auto simp add: image_iff)

lemma find_key_None: "find (\<lambda>q. JSONKey q = k) ps = None \<longleftrightarrow> k \<notin> JSONKey ` set ps"
  by (auto simp add: find_None_iff image_iff)


text \<open>
  C2, as stated, asks that all N attached provider configurations come back.
  It fails for N = 1 when the attached configuration has no fields, even though
  its provider is registered: \<^verbatim>\<open>MarshalJSON\<close> skips it, so the serialized object
  has no member for it and nothing is attached on the way back.
\<close>

theorem UnmarshalJSON_MarshalJSON_fieldless_counterexample:
  "UnmarshalJSON [exampleFieldless] zeroConfiguration
     (MarshalJSON
        (zeroConfiguration
           \<lparr>IndentationSize := 2, PreferredSource := ''Glosbe'',
            providerConfigs := [(''Glosbe'', Some exampleFieldless)]\<rparr>)) =
     Inr (zeroConfiguration
            \<lparr>IndentationSize := 2, PreferredSource := ''Glosbe'', providerConfigs := []\<rparr>,
          None)"
  by (simp add: UnmarshalJSON_def MarshalJSON_def decodeBase_def fieldFor_def
      sortMembers_def rawLookup_def exampleFieldless_def zeroConfiguration_def)

text \<open>
  C2, amended.  Let \<open>c\<close> be a configuration whose provider configurations are
  attached under their own JSON keys, and let the registered providers have
  distinct JSON keys, none of which matches a base field name.  Suppose every
  attached configuration that is not nil and has at least one field has
  distinct field names and is registered, with the same fields.  Then
  deserializing the serialization of \<open>c\<close> into a fresh configuration returns no
  error and yields the same \<open>IndentationSize\<close> and \<open>PreferredSource\<close>, and
  exactly those provider configurations (the ones that are not nil and have a
  field), each equal to the original and attached under its own JSON key.
\<close>

theorem UnmarshalJSON_MarshalJSON:
  assumes own: "underOwnKeys (providerConfigs c)"
    and regd: "distinct (map JSONKey reg)"
    and regbase: "list_all (\<lambda>r. fieldFor [''IndentationSize'', ''PreferredSource''] (JSONKey r) = None) reg"
    and typed: "list_all (\<lambda>p. distinct (map fst (fieldVals p)) \<and>
        (\<exists>r\<in>set reg. JSONKey r = JSONKey p \<and> map fst (fieldVals r) = map fst (fieldVals p)))
        (serializedProviders (providerConfigs c))"
  shows "\<exists>c'. UnmarshalJSON reg zeroConfiguration (MarshalJSON c) = Inr (c', None) \<and>
      IndentationSize c' = IndentationSize c \<and> PreferredSource c' = PreferredSource c \<and>
      (\<forall>p\<in>set (serializedProviders (providerConfigs c)).
         map_of (providerConfigs c') (JSONKey p) = Some (Some p)) \<and>
      fst ` set (providerConfigs c') = JSONKey ` set (serializedProviders (providerConfigs c))"
proof -
  let ?ser = "serializedProviders (providerConfigs c)"
  let ?cm0 = "[(''IndentationSize'', JNumber (uint (IndentationSize c))),
               (''PreferredSource'', JString (PreferredSource c))]"
  let ?M = "marshalLoop ?cm0 (providerConfigs c)"
  let ?S = "sortMembers ?M"
  let ?base = "[''IndentationSize'', ''PreferredSource'']"
  have marshal: "MarshalJSON c = JObject ?S" by (simp add: MarshalJSON_def)
  have dser: "distinct (map JSONKey ?ser)" using own by (rule distinct_serializedProviders)
  have dM: "distinct (map fst ?M)" by (rule distinct_marshalLoop) simp
  have mS: "map_of ?S = map_of ?M" using dM by (rule map_of_sortMembers)
  have dS: "distinct (map fst ?S)" using dM by (rule distinct_sortMembers)
  have look: "rawLookup ?S = map_of ?M" using rawLookup_distinct [OF dS] mS by simp
  have mM: "\<And>k. map_of ?M k =
      (case find (\<lambda>p. JSONKey p = k) ?ser of
         None \<Rightarrow> map_of ?cm0 k
       | Some p \<Rightarrow> Some (encodeProvider p))"
    by (simp add: map_of_marshalLoop map_of_members [OF dser] map_add_def
        split: option.splits)
  have serreg: "\<And>p. p \<in> set ?ser \<Longrightarrow> \<exists>r\<in>set reg. JSONKey r = JSONKey p \<and>
      map fst (fieldVals r) = map fst (fieldVals p)"
    using typed by (auto simp add: list_all_iff)
  have regnobase: "\<And>r. r \<in> set reg \<Longrightarrow> fieldFor ?base (JSONKey r) = None"
    using regbase by (auto simp add: list_all_iff)
  have sernobase: "\<And>p. p \<in> set ?ser \<Longrightarrow> fieldFor ?base (JSONKey p) = None"
    using serreg regnobase by metis
  have found: "\<And>k p. find (\<lambda>p. JSONKey p = k) ?ser = Some p \<Longrightarrow> p \<in> set ?ser \<and> JSONKey p = k"
    by (auto simp add: find_Some_iff)
  have members: "list_all (\<lambda>(k, v).
      (k = ''IndentationSize'' \<and> v = JNumber (uint (IndentationSize c))) \<or>
      (k = ''PreferredSource'' \<and> v = JString (PreferredSource c)) \<or>
      fieldFor ?base k = None) ?S"
    unfolding list_all_iff
  proof (intro ballI)
    fix kv assume "kv \<in> set ?S"
    then have "kv \<in> set ?M" by (simp add: set_sortMembers)
    then have "map_of ?M (fst kv) = Some (snd kv)" using dM by simp
    then obtain k v where kv: "kv = (k, v)" and mk: "map_of ?M k = Some v"
      by (cases kv) simp
    show "case kv of (k, v) \<Rightarrow>
      (k = ''IndentationSize'' \<and> v = JNumber (uint (IndentationSize c))) \<or>
      (k = ''PreferredSource'' \<and> v = JString (PreferredSource c)) \<or>
      fieldFor ?base k = None"
    proof (cases "find (\<lambda>p. JSONKey p = k) ?ser")
      case None
      with mk have "map_of ?cm0 k = Some v" by (simp add: mM)
      then show ?thesis unfolding kv by (simp split: if_splits)
    next
      case (Some p)
      then have "p \<in> set ?ser" "JSONKey p = k" using found by blast+
      then have "fieldFor ?base k = None" using sernobase [of p] by simp
      then show ?thesis unfolding kv by simp
    qed
  qed
  have inS: "''IndentationSize'' \<in> fst ` set ?S \<and> ''PreferredSource'' \<in> fst ` set ?S"
  proof -
    have nb: "\<And>k. k \<in> set ?base \<Longrightarrow> find (\<lambda>p. JSONKey p = k) ?ser = None"
    proof -
      fix k assume k: "k \<in> set ?base"
      show "find (\<lambda>p. JSONKey p = k) ?ser = None"
      proof (cases "find (\<lambda>p. JSONKey p = k) ?ser")
        case None
        then show ?thesis .
      next
        case (Some p)
        then have "p \<in> set ?ser" "JSONKey p = k" using found by blast+
        then have "fieldFor ?base k = None" using sernobase [of p] by simp
        then have "k \<notin> set ?base" by (rule fieldFor_None_notin)
        with k show ?thesis by blast
      qed
    qed
    have "find (\<lambda>p. JSONKey p = ''IndentationSize'') ?ser = None"
      "find (\<lambda>p. JSONKey p = ''PreferredSource'') ?ser = None"
      by (rule nb, simp)+
    then have "map_of ?M ''IndentationSize'' \<noteq> None" "map_of ?M ''PreferredSource'' \<noteq> None"
      by (simp_all add: mM)
    then have "''IndentationSize'' \<in> fst ` set ?M" "''PreferredSource'' \<in> fst ` set ?M"
      by (simp_all add: map_of_eq_None_iff)
    then show ?thesis by (simp add: set_sortMembers)
  qed
  have base: "decodeBase zeroConfiguration (JObject ?S) =
      (zeroConfiguration\<lparr>IndentationSize := IndentationSize c,
         PreferredSource := PreferredSource c\<rparr>, None)"
    using inS by (simp add: decodeBase_def decodeBaseLoop_members [OF members])
  have nonull: "list_all (\<lambda>r. rawLookup ?S (JSONKey r) \<noteq> Some JNull) reg"
    unfolding list_all_iff look
  proof (intro ballI)
    fix r assume r: "r \<in> set reg"
    have "JSONKey r \<notin> set ?base" using regnobase [OF r] by (rule fieldFor_None_notin)
    then show "map_of ?M (JSONKey r) \<noteq> Some JNull"
      by (auto simp add: mM encodeProvider_def split: option.splits)
  qed
  have "\<exists>pcs'. attachLoop ?S [] reg = Inr pcs' \<and>
     (\<forall>k. map_of pcs' k =
        (case find (\<lambda>r. JSONKey r = k) reg of
           None \<Rightarrow> map_of [] k
         | Some r \<Rightarrow>
             (case rawLookup ?S k of
                None \<Rightarrow> map_of [] k
              | Some raw \<Rightarrow> Some (Some (decodeProvider r raw)))))"
    using regd nonull by (rule attachLoop_map_of)
  then obtain pcs' where
    run: "attachLoop ?S [] reg = Inr pcs'" and
    m0: "\<forall>k. map_of pcs' k =
        (case find (\<lambda>r. JSONKey r = k) reg of
           None \<Rightarrow> map_of [] k
         | Some r \<Rightarrow>
             (case rawLookup ?S k of
                None \<Rightarrow> map_of [] k
              | Some raw \<Rightarrow> Some (Some (decodeProvider r raw))))"
    by blast
  have m: "\<And>k. map_of pcs' k =
        (case find (\<lambda>r. JSONKey r = k) reg of
           None \<Rightarrow> None
         | Some r \<Rightarrow>
             (case map_of ?M k of
                None \<Rightarrow> None
              | Some raw \<Rightarrow> Some (Some (decodeProvider r raw))))"
    using m0 by (simp add: look cong: option.case_cong)
  let ?c' = "zeroConfiguration\<lparr>IndentationSize := IndentationSize c,
         PreferredSource := PreferredSource c, providerConfigs := pcs'\<rparr>"
  have result: "UnmarshalJSON reg zeroConfiguration (MarshalJSON c) = Inr (?c', None)"
  proof -
    have pz: "providerConfigs zeroConfiguration = []" by (simp add: zeroConfiguration_def)
    show ?thesis using run by (simp add: UnmarshalJSON_def marshal base pz)
  qed
  have each: "\<forall>p\<in>set ?ser. map_of pcs' (JSONKey p) = Some (Some p)"
  proof
    fix p assume p: "p \<in> set ?ser"
    from serreg [OF p] obtain r where r: "r \<in> set reg" "JSONKey r = JSONKey p"
      "map fst (fieldVals r) = map fst (fieldVals p)" by blast
    have dp: "distinct (map fst (fieldVals p))" using typed p by (auto simp add: list_all_iff)
    have "find (\<lambda>q. JSONKey q = JSONKey r) reg = Some r" using regd r(1) by (rule find_key)
    moreover have "find (\<lambda>q. JSONKey q = JSONKey p) ?ser = Some p" using dser p by (rule find_key)
    ultimately have "map_of pcs' (JSONKey p) = Some (Some (decodeProvider r (encodeProvider p)))"
      using r(2) by (simp add: m mM)
    then show "map_of pcs' (JSONKey p) = Some (Some p)"
      using decodeProvider_encodeProvider [OF r(2,3) dp] by simp
  qed
  have keys: "fst ` set pcs' = JSONKey ` set ?ser"
  proof -
    have "dom (map_of pcs') = JSONKey ` set ?ser"
    proof (rule set_eqI)
      fix k
      show "k \<in> dom (map_of pcs') \<longleftrightarrow> k \<in> JSONKey ` set ?ser"
      proof
        assume "k \<in> dom (map_of pcs')"
        then obtain r where fr: "find (\<lambda>r. JSONKey r = k) reg = Some r"
          and mk: "map_of ?M k \<noteq> None"
          by (auto simp add: m dom_def split: option.splits)
        from fr have "r \<in> set reg" "JSONKey r = k" by (auto simp add: find_Some_iff)
        then have "k \<notin> set ?base" using regnobase fieldFor_None_notin by blast
        with mk have "find (\<lambda>p. JSONKey p = k) ?ser \<noteq> None"
          by (auto simp add: mM split: option.splits if_splits)
        then show "k \<in> JSONKey ` set ?ser" by (simp add: find_key_None)
      next
        assume "k \<in> JSONKey ` set ?ser"
        then obtain p where "p \<in> set ?ser" "k = JSONKey p" by blast
        with each show "k \<in> dom (map_of pcs')" by auto
      qed
    qed
    then show ?thesis by (simp add: dom_map_of_conv_image_fst)
  qed
  from result each keys show ?thesis by simp
qed

theorem UnmarshalJSON_MarshalJSON_witness:
  "\<exists>c'. UnmarshalJSON [exampleFieldless, registeredOxford] zeroConfiguration
       (MarshalJSON
          (zeroConfiguration
             \<lparr>IndentationSize := 4, PreferredSource := ''OxfordDictionary'',
              providerConfigs :=
                [(''Glosbe'', Some exampleFieldless),
                 (''OxfordDictionary'', Some exampleOxford)]\<rparr>)) = Inr (c', None) \<and>
     IndentationSize c' = 4 \<and> PreferredSource c' = ''OxfordDictionary'' \<and>
     map_of (providerConfigs c') ''OxfordDictionary'' = Some (Some exampleOxford) \<and>
     fst ` set (providerConfigs c') = {''OxfordDictionary''}"
proof -
  let ?c = "zeroConfiguration
             \<lparr>IndentationSize := 4, PreferredSource := ''OxfordDictionary'',
              providerConfigs :=
                [(''Glosbe'', Some exampleFieldless),
                 (''OxfordDictionary'', Some exampleOxford)]\<rparr>"
  let ?reg = "[exampleFieldless, registeredOxford]"
  have ser: "serializedProviders (providerConfigs ?c) = [exampleOxford]"
    by (simp add: exampleFieldless_def exampleOxford_def)
  have own: "underOwnKeys (providerConfigs ?c)"
    by (simp add: underOwnKeys_def exampleFieldless_def exampleOxford_def)
  have regd: "distinct (map JSONKey ?reg)"
    by (simp add: exampleFieldless_def registeredOxford_def)
  have regbase: "list_all (\<lambda>r. fieldFor [''IndentationSize'', ''PreferredSource'']
      (JSONKey r) = None) ?reg"
    by (simp add: fieldFor_def EqualFold_def exampleFieldless_def registeredOxford_def)
  have typed: "list_all (\<lambda>p. distinct (map fst (fieldVals p)) \<and>
        (\<exists>r\<in>set ?reg. JSONKey r = JSONKey p \<and> map fst (fieldVals r) = map fst (fieldVals p)))
        (serializedProviders (providerConfigs ?c))"
    unfolding ser by (simp add: exampleOxford_def registeredOxford_def)
  from UnmarshalJSON_MarshalJSON [OF own regd regbase typed] show ?thesis
    unfolding ser by (simp add: exampleOxford_def)
qed

end
